theory Spec2Isabelle
  imports Complex_Main
begin

section \<open>Data model of the order store (stores/orders.ts)\<close>

text \<open>
  A JavaScript \<open>number\<close> is modelled as the \<open>real\<close> it denotes (a finite double;
  the arithmetic on numbers, with its rounding, follows below); an optional field
  (\<open>paymentId?: string\<close>, a nullable column) as an \<open>option\<close>, with \<open>None\<close> for
  \<open>null\<close>/\<open>undefined\<close>. The order status is the four-valued union of the \<open>Order\<close>
  interface, which the table's CHECK constraint enforces on the column as well.
\<close>

datatype order_status = Pending | Confirmed | Completed | Cancelled

type_synonym point = "real \<times> real"

text \<open>The \<open>Order\<close> interface. The field \<open>id\<close> is named \<open>order_id\<close> here.\<close>

record order =
  order_id :: string
  customerName :: string
  customerEmail :: string
  customerPhone :: string
  pickupDate :: string
  pickupTime :: string
  startAddress :: string
  endAddress :: string
  startPoint :: point
  endPoint :: point
  distance :: real
  price :: real
  additionalNotes :: "string option"
  createdAt :: string
  status :: order_status
  paymentId :: "string option"
  paymentStatus :: "string option"
  paymentUrl :: "string option"

text \<open>
  A row of the \<open>orders\<close> table (the two migrations). The columns \<open>id\<close>, \<open>distance\<close>,
  \<open>price\<close> and \<open>status\<close> carry the prefix \<open>row_\<close>.
\<close>

record db_row =
  row_id :: string
  customer_name :: string
  customer_email :: string
  customer_phone :: string
  pickup_date :: string
  pickup_time :: string
  start_address :: string
  end_address :: string
  start_point :: point
  end_point :: point
  row_distance :: real
  row_price :: real
  additional_notes :: "string option"
  created_at :: string
  row_status :: order_status
  user_id :: "string option"
  payment_id :: "string option"
  payment_status :: "string option"
  payment_url :: "string option"

text \<open>The argument of \<open>addOrder\<close>: \<open>Omit<Order, 'id' | 'createdAt' | 'status'>\<close>.\<close>

record new_order =
  n_customerName :: string
  n_customerEmail :: string
  n_customerPhone :: string
  n_pickupDate :: string
  n_pickupTime :: string
  n_startAddress :: string
  n_endAddress :: string
  n_startPoint :: point
  n_endPoint :: point
  n_distance :: real
  n_price :: real
  n_additionalNotes :: "string option"
  n_paymentId :: "string option"
  n_paymentStatus :: "string option"
  n_paymentUrl :: "string option"

text \<open>
  What a \<open>catch (err)\<close> receives: an \<open>Error\<close> instance with its message, or any other
  thrown value. \<open>err instanceof Error ? err.message : fallback\<close> is \<open>message_or\<close>.
\<close>

datatype thrown = ErrorObj string | OtherThrown

fun message_or :: "thrown \<Rightarrow> string \<Rightarrow> string" where
  "message_or (ErrorObj m) fallback = m"
| "message_or OtherThrown fallback = fallback"

text \<open>Outgoing notification attempts (lib/email.ts), recorded with the order id.\<close>

datatype notification = AdminNotification string | CustomerConfirmation string

text \<open>
  The state the store's operations act on: the persisted \<open>orders\<close> table behind the
  Supabase client, the three refs of the store (\<open>orders\<close>, \<open>isLoading\<close>, \<open>error\<close>), and the
  notifications attempted so far. The table is the list of its rows, newest first, which
  is the order \<open>fetchOrders\<close> asks for (\<open>created_at\<close> descending).
\<close>

record state =
  table :: "db_row list"
  orders :: "order list"
  isLoading :: bool
  error :: "string option"
  mails :: "notification list"

definition mapDbRowToOrder :: "db_row \<Rightarrow> order" where
  "mapDbRowToOrder row =
     \<lparr> order_id = row_id row,
       customerName = customer_name row,
       customerEmail = customer_email row,
       customerPhone = customer_phone row,
       pickupDate = pickup_date row,
       pickupTime = pickup_time row,
       startAddress = start_address row,
       endAddress = end_address row,
       startPoint = start_point row,
       endPoint = end_point row,
       distance = row_distance row,
       price = row_price row,
       additionalNotes = additional_notes row,
       createdAt = created_at row,
       status = row_status row,
       paymentId = payment_id row,
       paymentStatus = payment_status row,
       paymentUrl = payment_url row \<rparr>"

section \<open>The persistence calls\<close>

text \<open>
  Each call of the Supabase client answers \<open>{ data, error }\<close>. Whether the backend
  reports an error (network, policy, constraint) is not decided by this code, so every
  call takes the reported error as an argument \<open>fault\<close>: with \<open>Some e\<close> the table is
  untouched and \<open>e\<close> comes back, with \<open>None\<close> the statement takes effect on the rows
  selected by \<open>.eq('id', id)\<close>.
\<close>

definition db_update :: "thrown option \<Rightarrow> string \<Rightarrow> (db_row \<Rightarrow> db_row) \<Rightarrow> db_row list
    \<Rightarrow> thrown + db_row list" where
  "db_update fault i f t =
     (case fault of
        Some e \<Rightarrow> Inl e
      | None \<Rightarrow> Inr (map (\<lambda>r. if row_id r = i then f r else r) t))"

definition db_delete :: "thrown option \<Rightarrow> string \<Rightarrow> db_row list \<Rightarrow> thrown + db_row list" where
  "db_delete fault i t =
     (case fault of
        Some e \<Rightarrow> Inl e
      | None \<Rightarrow> Inr (filter (\<lambda>r. row_id r \<noteq> i) t))"

text \<open>
  \<open>.select('*').eq('id', id).single()\<close>: exactly one row, or an error. \<open>no_rows\<close> is the
  error object the client reports when the row count is not one.
\<close>

definition db_select_single :: "thrown option \<Rightarrow> thrown \<Rightarrow> string \<Rightarrow> db_row list
    \<Rightarrow> thrown + db_row" where
  "db_select_single fault no_rows i t =
     (case fault of
        Some e \<Rightarrow> Inl e
      | None \<Rightarrow> (case filter (\<lambda>r. row_id r = i) t of
                   [r] \<Rightarrow> Inr r
                 | _ \<Rightarrow> Inl no_rows))"

definition db_select_all :: "thrown option \<Rightarrow> db_row list \<Rightarrow> thrown + db_row list" where
  "db_select_all fault t = (case fault of Some e \<Rightarrow> Inl e | None \<Rightarrow> Inr t)"

section \<open>The store's operations\<close>

text \<open>\<open>orders.value.find(p)\<close> followed by an assignment to a field of the object found.\<close>

fun update_first :: "('a \<Rightarrow> bool) \<Rightarrow> ('a \<Rightarrow> 'a) \<Rightarrow> 'a list \<Rightarrow> 'a list" where
  "update_first P f [] = []"
| "update_first P f (x # xs) = (if P x then f x # xs else x # update_first P f xs)"

definition fetchOrders :: "thrown option \<Rightarrow> state \<Rightarrow> state" where
  "fetchOrders fault s =
     (let s1 = s\<lparr>isLoading := True, error := None\<rparr> in
      case db_select_all fault (table s1) of
        Inl e \<Rightarrow> s1\<lparr>error := Some (message_or e ''Failed to fetch orders''), isLoading := False\<rparr>
      | Inr data \<Rightarrow> s1\<lparr>orders := map mapDbRowToOrder data, isLoading := False\<rparr>)"

definition updateOrderStatus :: "thrown option \<Rightarrow> string \<Rightarrow> order_status \<Rightarrow> state \<Rightarrow> state" where
  "updateOrderStatus fault i st s =
     (let s1 = s\<lparr>isLoading := True, error := None\<rparr> in
      case db_update fault i (\<lambda>r. r\<lparr>row_status := st\<rparr>) (table s1) of
        Inl e \<Rightarrow>
          s1\<lparr>error := Some (message_or e ''Failed to update order status''), isLoading := False\<rparr>
      | Inr t' \<Rightarrow>
          s1\<lparr>table := t',
             orders := update_first (\<lambda>x. order_id x = i) (\<lambda>x. x\<lparr>status := st\<rparr>) (orders s1),
             isLoading := False\<rparr>)"

text \<open>
  \<open>updatePaymentStatus\<close> makes up to two persistence calls: its own update of
  \<open>payment_status\<close> (\<open>fault\<close>) and, inside the branch of the cache lookup, the one of the
  cascaded \<open>updateOrderStatus(orderId, 'confirmed')\<close> (\<open>fault2\<close>).
\<close>

definition updatePaymentStatus :: "thrown option \<Rightarrow> thrown option \<Rightarrow> string \<Rightarrow> string
    \<Rightarrow> state \<Rightarrow> state" where
  "updatePaymentStatus fault fault2 orderId ps s =
     (let s1 = s\<lparr>isLoading := True, error := None\<rparr> in
      case db_update fault orderId (\<lambda>r. r\<lparr>payment_status := Some ps\<rparr>) (table s1) of
        Inl e \<Rightarrow>
          s1\<lparr>error := Some (message_or e ''Failed to update payment status''),
             isLoading := False\<rparr>
      | Inr t' \<Rightarrow>
          (let s2 = s1\<lparr>table := t'\<rparr> in
           case find (\<lambda>x. order_id x = orderId) (orders s2) of
             None \<Rightarrow> s2\<lparr>isLoading := False\<rparr>
           | Some _ \<Rightarrow>
               (let s3 = s2\<lparr>orders := update_first (\<lambda>x. order_id x = orderId)
                                         (\<lambda>x. x\<lparr>paymentStatus := Some ps\<rparr>) (orders s2)\<rparr>;
                    s4 = (if ps = ''PAID'' then updateOrderStatus fault2 orderId Confirmed s3
                          else s3)
                in s4\<lparr>isLoading := False\<rparr>)))"

definition deleteOrder :: "thrown option \<Rightarrow> string \<Rightarrow> state \<Rightarrow> state" where
  "deleteOrder fault i s =
     (let s1 = s\<lparr>isLoading := True, error := None\<rparr> in
      case db_delete fault i (table s1) of
        Inl e \<Rightarrow> s1\<lparr>error := Some (message_or e ''Failed to delete order''), isLoading := False\<rparr>
      | Inr t' \<Rightarrow>
          s1\<lparr>table := t', orders := filter (\<lambda>x. order_id x \<noteq> i) (orders s1),
             isLoading := False\<rparr>)"

definition getOrderById :: "string \<Rightarrow> state \<Rightarrow> order option" where
  "getOrderById i s = find (\<lambda>x. order_id x = i) (orders s)"

text \<open>\<open>fetchOrderById\<close> returns the mapped row, or \<open>null\<close> (\<open>None\<close>) from its catch block.\<close>

definition fetchOrderById :: "thrown option \<Rightarrow> thrown \<Rightarrow> string \<Rightarrow> state \<Rightarrow> state \<times> order option" where
  "fetchOrderById fault no_rows i s =
     (let s1 = s\<lparr>isLoading := True, error := None\<rparr> in
      case db_select_single fault no_rows i (table s1) of
        Inl e \<Rightarrow>
          (s1\<lparr>error := Some (message_or e ''Failed to fetch order''), isLoading := False\<rparr>, None)
      | Inr data \<Rightarrow> (s1\<lparr>isLoading := False\<rparr>, Some (mapDbRowToOrder data)))"

section \<open>JavaScript numbers: double arithmetic\<close>

text \<open>
  A finite double is a real of the form \<open>m * 2 powi q\<close> with \<open>\<bar>m\<bar> < 2 ^ 53\<close> and
  \<open>- 1074 \<le> q\<close>. An arithmetic operation of the language yields the exact result
  rounded to the nearest double, ties to the even significand.

  \<open>rne\<close> is the nearest integer, ties to even.
\<close>

definition rne :: "real \<Rightarrow> int" where
  "rne t = (let f = \<lfloor>t\<rfloor>; r = t - of_int f in
            if r < 1 / 2 then f else if 1 / 2 < r then f + 1 else if even f then f else f + 1)"

text \<open>
  \<open>expo x\<close> is the binary exponent of a positive \<open>x\<close>, searched downwards from 1023 and
  held at \<open>- 1022\<close> for the subnormal numbers: \<open>2 powi expo x \<le> x < 2 powi (expo x + 1)\<close>
  for a normal \<open>x\<close>. The doubles around \<open>x\<close> are the multiples of \<open>quantum x\<close>.
\<close>

fun expo_from :: "nat \<Rightarrow> int \<Rightarrow> real \<Rightarrow> int" where
  "expo_from 0 k x = k"
| "expo_from (Suc n) k x = (if 2 powi k \<le> x then k else expo_from n (k - 1) x)"

definition expo :: "real \<Rightarrow> int" where
  "expo x = expo_from 2045 1023 x"

definition quantum :: "real \<Rightarrow> real" where
  "quantum x = 2 powi (expo x - 52)"

text \<open>
  \<open>fl x\<close> is the double nearest to \<open>x\<close>. Where the rounded value reaches
  \<open>2 powi 1024\<close> the language yields an infinity instead; the operations of this file
  stay below it on finite doubles (\<open>quotient_finite\<close>, \<open>product_finite\<close>,
  \<open>fl_times_6_bounds\<close>). \<open>is_double\<close> singles out the finite doubles.
\<close>

definition fl :: "real \<Rightarrow> real" where
  "fl x = (if x < 0 then - (of_int (rne (- x / quantum (- x))) * quantum (- x))
           else of_int (rne (x / quantum x)) * quantum x)"

definition is_double :: "real \<Rightarrow> bool" where
  "is_double x = (fl x = x \<and> \<bar>x\<bar> < 2 powi 1024)"

text \<open>The operators \<open>/\<close> and \<open>*\<close> on numbers.\<close>

definition js_div :: "real \<Rightarrow> real \<Rightarrow> real" where
  "js_div x y = fl (x / y)"

definition js_mul :: "real \<Rightarrow> real \<Rightarrow> real" where
  "js_mul x y = fl (x * y)"

section \<open>The payment adapter (lib/gopay.ts), as it runs: the mock\<close>

text \<open>\<open>String.prototype.startsWith\<close> and \<open>substring(0, n)\<close>.\<close>

definition startsWith :: "string \<Rightarrow> string \<Rightarrow> bool" where
  "startsWith str p = (take (length p) str = p)"

text \<open>An array read \<open>xs[i]\<close>: \<open>undefined\<close> (\<open>None\<close>) outside the array.\<close>

definition js_index :: "'a list \<Rightarrow> int \<Rightarrow> 'a option" where
  "js_index xs i = (if 0 \<le> i \<and> i < int (length xs) then Some (xs ! nat i) else None)"

record payment_order =
  po_id :: string
  po_customerName :: string
  po_customerEmail :: string
  po_price :: real
  po_description :: string

record payment_result =
  pay_id :: string
  pay_url :: string

text \<open>
  \<open>createPayment\<close> builds its result from \<open>uuidv4()\<close> and \<open>window.location.origin\<close>; both
  come from the environment, the first as a result that may be a thrown value. Its catch
  block rethrows \<open>new Error('Failed to create payment')\<close>.
\<close>

definition createPayment :: "thrown + string \<Rightarrow> string \<Rightarrow> payment_order
    \<Rightarrow> thrown + payment_result" where
  "createPayment uuid origin orderData =
     (case uuid of
        Inl e \<Rightarrow> Inl (ErrorObj ''Failed to create payment'')
      | Inr u \<Rightarrow>
          Inr \<lparr> pay_id = ''mock_payment_'' @ take 8 u,
                pay_url = origin @ ''/payment-result?orderId='' @ po_id orderData
                            @ ''&mockPayment=true'' \<rparr>)"

definition statuses :: "string list" where
  "statuses = [''CREATED'', ''PENDING'', ''PAID'', ''CANCELED'', ''TIMEOUTED'', ''FAILED'']"

text \<open>
  \<open>getPaymentStatus\<close>: \<open>r1\<close> and \<open>r2\<close> are the values of the two calls of
  \<open>Math.random()\<close>, in source order; the result \<open>None\<close> is \<open>undefined\<close>. The literal
  \<open>0.7\<close> denotes the double nearest to seven tenths, the product is rounded, the
  comparison and \<open>Math.floor\<close> are exact.
\<close>

definition getPaymentStatus :: "real \<Rightarrow> real \<Rightarrow> string \<Rightarrow> string option" where
  "getPaymentStatus r1 r2 pid =
     (if startsWith pid ''mock_payment_'' then
        (let randomIndex = (if r1 < fl 0.7 then 2
                            else \<lfloor>js_mul r2 (real (length statuses))\<rfloor>)
         in js_index statuses randomIndex)
      else Some ''UNKNOWN'')"

definition verifyCallbackSignature :: "'b \<Rightarrow> string \<Rightarrow> bool" where
  "verifyCallbackSignature body signature = True"

section \<open>Creating an order (addOrder)\<close>

text \<open>The object \<open>mapOrderToDbRow\<close> returns: the twelve columns the insert supplies.\<close>

record insert_row =
  i_customer_name :: string
  i_customer_email :: string
  i_customer_phone :: string
  i_pickup_date :: string
  i_pickup_time :: string
  i_start_address :: string
  i_end_address :: string
  i_start_point :: point
  i_end_point :: point
  i_distance :: real
  i_price :: real
  i_additional_notes :: "string option"

definition mapOrderToDbRow :: "new_order \<Rightarrow> insert_row" where
  "mapOrderToDbRow ord =
     \<lparr> i_customer_name = n_customerName ord,
       i_customer_email = n_customerEmail ord,
       i_customer_phone = n_customerPhone ord,
       i_pickup_date = n_pickupDate ord,
       i_pickup_time = n_pickupTime ord,
       i_start_address = n_startAddress ord,
       i_end_address = n_endAddress ord,
       i_start_point = n_startPoint ord,
       i_end_point = n_endPoint ord,
       i_distance = n_distance ord,
       i_price = n_price ord,
       i_additional_notes = n_additionalNotes ord \<rparr>"

text \<open>
  \<open>.insert(row).select().single()\<close>: the table fills in the defaults of the migrations
  (\<open>id\<close> generated, \<open>created_at\<close> the time of the insert, \<open>status\<close> 'pending', the other
  columns NULL) and the call answers with the stored row. The generated id and the time
  are the database's, so they are arguments.
\<close>

definition db_insert :: "thrown option \<Rightarrow> string \<Rightarrow> string \<Rightarrow> insert_row \<Rightarrow> db_row list
    \<Rightarrow> thrown + (db_row \<times> db_row list)" where
  "db_insert fault new_id now r t =
     (case fault of
        Some e \<Rightarrow> Inl e
      | None \<Rightarrow>
          (let row = \<lparr> row_id = new_id,
                       customer_name = i_customer_name r,
                       customer_email = i_customer_email r,
                       customer_phone = i_customer_phone r,
                       pickup_date = i_pickup_date r,
                       pickup_time = i_pickup_time r,
                       start_address = i_start_address r,
                       end_address = i_end_address r,
                       start_point = i_start_point r,
                       end_point = i_end_point r,
                       row_distance = i_distance r,
                       row_price = i_price r,
                       additional_notes = i_additional_notes r,
                       created_at = now,
                       row_status = Pending,
                       user_id = None,
                       payment_id = None,
                       payment_status = None,
                       payment_url = None \<rparr>
           in Inr (row, row # t)))"

text \<open>What the environment answers during one call of \<open>addOrder\<close>.\<close>

record add_env =
  insert_fault :: "thrown option"
  generated_id :: string
  insert_time :: string
  uuid_result :: "thrown + string"
  location_origin :: string
  payment_update_fault :: "thrown option"
  refresh_fault :: "thrown option"

text \<open>The object \<open>addOrder\<close> returns on success; \<open>null\<close> is \<open>None\<close>.\<close>

record add_result =
  res_orderId :: string
  res_paymentUrl :: "string option"

definition addOrder :: "add_env \<Rightarrow> new_order \<Rightarrow> state \<Rightarrow> state \<times> add_result option" where
  "addOrder env ord s =
     (let s1 = s\<lparr>isLoading := True, error := None\<rparr> in
      case db_insert (insert_fault env) (generated_id env) (insert_time env)
             (mapOrderToDbRow ord) (table s1) of
        Inl e \<Rightarrow>
          (s1\<lparr>error := Some (message_or e ''Failed to add order''), isLoading := False\<rparr>, None)
      | Inr (data, t1) \<Rightarrow>
          (let s2 = s1\<lparr>table := t1\<rparr>;
               (s3, data') =
                 (case createPayment (uuid_result env) (location_origin env)
                         \<lparr> po_id = row_id data,
                           po_customerName = n_customerName ord,
                           po_customerEmail = n_customerEmail ord,
                           po_price = n_price ord,
                           po_description = ''Transportation from '' @ n_startAddress ord
                                              @ '' to '' @ n_endAddress ord \<rparr> of
                    Inl paymentError \<Rightarrow> (s2, data)
                  | Inr paymentResult \<Rightarrow>
                      ((case db_update (payment_update_fault env) (row_id data)
                               (\<lambda>r. r\<lparr>payment_id := Some (pay_id paymentResult),
                                       payment_status := Some ''CREATED'',
                                       payment_url := Some (pay_url paymentResult)\<rparr>)
                               (table s2) of
                          Inl updateError \<Rightarrow> s2
                        | Inr t2 \<Rightarrow> s2\<lparr>table := t2\<rparr>),
                       data\<lparr>payment_id := Some (pay_id paymentResult),
                            payment_status := Some ''CREATED'',
                            payment_url := Some (pay_url paymentResult)\<rparr>));
               s4 = s3\<lparr>mails := mails s3 @ [AdminNotification (row_id data'),
                                              CustomerConfirmation (row_id data')]\<rparr>;
               s5 = fetchOrders (refresh_fault env) s4
           in (s5\<lparr>isLoading := False\<rparr>,
               Some \<lparr> res_orderId = row_id data', res_paymentUrl = payment_url data' \<rparr>)))"

section \<open>The payment-result page (components/PaymentResult.vue)\<close>

text \<open>Truthiness of a value of type \<open>string | undefined\<close>: defined and not empty.\<close>

fun truthy :: "string option \<Rightarrow> bool" where
  "truthy None = False"
| "truthy (Some str) = (str \<noteq> [])"

text \<open>The four refs of the page.\<close>

record result_view =
  view_isLoading :: bool
  view_error :: "string option"
  view_order :: "order option"
  view_paymentStatus :: "string option"

text \<open>What the environment answers during one run of the page's \<open>onMounted\<close> hook.\<close>

record poll_env =
  fetch_fault :: "thrown option"
  fetch_no_rows :: thrown
  random1 :: real
  random2 :: real
  status_fault :: "thrown option"
  cascade_fault :: "thrown option"

text \<open>
  \<open>onMounted\<close>: one poll. \<open>orderId\<close> is \<open>route.query.orderId\<close>. The one-second delay of
  a mock payment changes no state and is left out. The branch for a status that is
  \<open>undefined\<close> passes nothing on to the store.
\<close>

definition onMounted :: "poll_env \<Rightarrow> string option \<Rightarrow> state \<times> result_view
    \<Rightarrow> state \<times> result_view" where
  "onMounted env orderId sv =
     (let (s, v) = sv in
      if \<not> truthy orderId then
        (s, v\<lparr>view_error := Some ''No order ID provided'', view_isLoading := False\<rparr>)
      else
        (case fetchOrderById (fetch_fault env) (fetch_no_rows env) (the orderId) s of
           (s1, None) \<Rightarrow>
             (s1, v\<lparr>view_error := Some ''Order not found'', view_isLoading := False\<rparr>)
         | (s1, Some orderData) \<Rightarrow>
             (let v1 = v\<lparr>view_order := Some orderData\<rparr> in
              if truthy (paymentId orderData) then
                (case getPaymentStatus (random1 env) (random2 env) (the (paymentId orderData)) of
                   None \<Rightarrow> (s1, v1\<lparr>view_paymentStatus := None, view_isLoading := False\<rparr>)
                 | Some st \<Rightarrow>
                     (updatePaymentStatus (status_fault env) (cascade_fault env)
                        (the orderId) st s1,
                      v1\<lparr>view_paymentStatus := Some st, view_isLoading := False\<rparr>))
              else
                (s1, v1\<lparr>view_paymentStatus := Some ''UNKNOWN'', view_isLoading := False\<rparr>))))"

section \<open>Sequences of store operations\<close>

text \<open>
  The operations the store exports that act on its state, each with what the environment
  answers to it, and the state after running a list of them in order.
\<close>

datatype store_op =
    FetchOrders "thrown option"
  | AddOrder add_env new_order
  | UpdateOrderStatus "thrown option" string order_status
  | UpdatePaymentStatus "thrown option" "thrown option" string string
  | DeleteOrder "thrown option" string
  | FetchOrderById "thrown option" thrown string

fun apply_op :: "store_op \<Rightarrow> state \<Rightarrow> state" where
  "apply_op (FetchOrders f) s = fetchOrders f s"
| "apply_op (AddOrder env ord) s = fst (addOrder env ord s)"
| "apply_op (UpdateOrderStatus f i st) s = updateOrderStatus f i st s"
| "apply_op (UpdatePaymentStatus f f2 i ps) s = updatePaymentStatus f f2 i ps s"
| "apply_op (DeleteOrder f i) s = deleteOrder f i s"
| "apply_op (FetchOrderById f nr i) s = fst (fetchOrderById f nr i s)"

fun run :: "store_op list \<Rightarrow> state \<Rightarrow> state" where
  "run [] s = s"
| "run (opn # ops) s = run ops (apply_op opn s)"

text \<open>The id an operation may bring into the table: the one generated for an insert.\<close>

fun inserted_id :: "store_op \<Rightarrow> string option" where
  "inserted_id (AddOrder env ord) = Some (generated_id env)"
| "inserted_id _ = None"

section \<open>The callback endpoint (server.js)\<close>

text \<open>
  The request as the handler reads it: the header table and the body, which the JSON
  body parser mounted before the route always leaves an object. The response is the
  status code and the JSON object sent.
\<close>

record 'b request =
  headers :: "string \<Rightarrow> string option"
  body :: 'b

record response =
  status_code :: nat
  json_success :: bool
  json_error :: "string option"

definition gopay_callback :: "'b request \<Rightarrow> response" where
  "gopay_callback req =
     (let signature = headers req ''x-gopay-signature'' in
      if \<not> truthy signature \<or> \<not> verifyCallbackSignature (body req) (the signature) then
        \<lparr> status_code = 401, json_success = False, json_error = Some ''Invalid signature'' \<rparr>
      else
        \<lparr> status_code = 200, json_success = True, json_error = None \<rparr>)"

section \<open>The auth store and the navigation guard (stores/auth.ts, router/index.ts)\<close>

text \<open>The session user, with \<open>user_metadata?.role\<close>; \<open>user.value\<close> is \<open>null\<close> as \<open>None\<close>.\<close>

record session_user =
  uid :: string
  metadata_role :: "string option"

record auth_store =
  user :: "session_user option"

definition isAuthenticated :: "auth_store \<Rightarrow> bool" where
  "isAuthenticated a = (user a \<noteq> None)"

definition isAdmin :: "auth_store \<Rightarrow> bool" where
  "isAdmin a = (case user a of None \<Rightarrow> False | Some u \<Rightarrow> metadata_role u = Some ''admin'')"

text \<open>A route record of the router's table; \<open>meta.requiresAuth\<close> is absent on three.\<close>

record route_record =
  route_path :: string
  route_name :: string
  requiresAuth :: "bool option"

definition routes :: "route_record list" where
  "routes =
     [ \<lparr> route_path = ''/'', route_name = ''home'', requiresAuth = None \<rparr>,
       \<lparr> route_path = ''/admin'', route_name = ''admin'', requiresAuth = Some True \<rparr>,
       \<lparr> route_path = ''/login'', route_name = ''login'', requiresAuth = None \<rparr>,
       \<lparr> route_path = ''/payment-result'', route_name = ''paymentResult'',
         requiresAuth = None \<rparr> ]"

text \<open>
  The target of a navigation: the matched record and the full path asked for. For a plain
  path, without query or hash, the record is the one with that path.
\<close>

record location =
  matched :: route_record
  fullPath :: string

definition resolve :: "string \<Rightarrow> location option" where
  "resolve p =
     (case find (\<lambda>r. route_path r = p) routes of
        None \<Rightarrow> None
      | Some r \<Rightarrow> Some \<lparr> matched = r, fullPath = p \<rparr>)"

text \<open>What the guard passes to \<open>next\<close>: nothing, or a named location with a query.\<close>

datatype navigation = Proceed | Redirect string "(string \<times> string) list"

definition beforeEach :: "auth_store \<Rightarrow> location \<Rightarrow> navigation" where
  "beforeEach authStore to =
     (if requiresAuth (matched to) = Some True \<and> \<not> isAuthenticated authStore then
        Redirect ''login'' [(''redirect'', fullPath to)]
      else Proceed)"

text \<open>
  The address of a named location with a query: the path of the record of that name,
  then \<open>?key=value\<close> pairs joined by \<open>&\<close>. Written for values the router's query encoding
  leaves as they are, such as \<open>/admin\<close>.
\<close>

fun stringifyQuery :: "(string \<times> string) list \<Rightarrow> string" where
  "stringifyQuery [] = []"
| "stringifyQuery [(k, v)] = k @ ''='' @ v"
| "stringifyQuery ((k, v) # q) = k @ ''='' @ v @ ''&'' @ stringifyQuery q"

definition href :: "string \<Rightarrow> (string \<times> string) list \<Rightarrow> string option" where
  "href name query =
     (case find (\<lambda>r. route_name r = name) routes of
        None \<Rightarrow> None
      | Some r \<Rightarrow> Some (route_path r @ (if query = [] then [] else ''?'' @ stringifyQuery query)))"

section \<open>The price of a route (the routesfound handler of the planner)\<close>

text \<open>
  \<open>Math.round\<close>: the integer closest to the argument, the one towards plus infinity when
  two are equally close. It is exact: the result is an integer that is a double.
\<close>

definition js_round :: "real \<Rightarrow> int" where
  "js_round x = (if x - of_int \<lfloor>x\<rfloor> < 1 / 2 then \<lfloor>x\<rfloor> else \<lfloor>x\<rfloor> + 1)"

definition PRICE_PER_KM :: real where
  "PRICE_PER_KM = 20"

datatype step = Details | Payment

record planner =
  routeDistance :: "real option"
  routePrice :: "int option"
  showOrderForm :: bool
  currentStep :: step

text \<open>
  The handler of \<open>routesfound\<close>; the event's \<open>routes\<close> is given as the list of the
  \<open>summary.totalDistance\<close> of each route, an absent array as the empty list.
\<close>

fun routesfound :: "real list \<Rightarrow> planner \<Rightarrow> planner" where
  "routesfound [] p = p"
| "routesfound (distanceInMeters # _) p =
     (let distanceInKm = js_div distanceInMeters 1000 in
      p\<lparr>routeDistance := Some distanceInMeters,
        routePrice := Some (js_round (js_mul distanceInKm PRICE_PER_KM)),
        showOrderForm := True,
        currentStep := Details\<rparr>)"

section \<open>An invariant and sample data\<close>

text \<open>No persisted row and no cached order carries the id.\<close>

definition absent :: "string \<Rightarrow> state \<Rightarrow> bool" where
  "absent i s = (i \<notin> row_id ` set (table s) \<and> i \<notin> order_id ` set (orders s))"

text \<open>
  A persisted order with a mock payment session, the store as a freshly loaded page has
  it (nothing cached), and the store after the list was fetched.
\<close>

definition sample_row :: db_row where
  "sample_row =
     \<lparr> row_id = ''o1'',
       customer_name = ''Jan'',
       customer_email = ''jan@example.com'',
       customer_phone = ''+420123456789'',
       pickup_date = ''2025-03-01'',
       pickup_time = ''10:00'',
       start_address = ''Prague'',
       end_address = ''Brno'',
       start_point = (50, 14),
       end_point = (49, 16),
       row_distance = 200000,
       row_price = 4000,
       additional_notes = None,
       created_at = ''2025-03-01T00:54:24Z'',
       row_status = Pending,
       user_id = None,
       payment_id = Some ''mock_payment_1a2b3c4d'',
       payment_status = Some ''CREATED'',
       payment_url = Some ''http://localhost/payment-result?orderId=o1&mockPayment=true'' \<rparr>"

definition fresh_store :: state where
  "fresh_store =
     \<lparr> table = [sample_row], orders = [], isLoading = False, error = None, mails = [] \<rparr>"

definition loaded_store :: state where
  "loaded_store = fresh_store\<lparr>orders := [mapDbRowToOrder sample_row]\<rparr>"

definition initial_view :: result_view where
  "initial_view =
     \<lparr> view_isLoading = True, view_error = None, view_order = None,
       view_paymentStatus = None \<rparr>"

text \<open>A poll in which every call succeeds and the first random number selects PAID.\<close>

definition paid_poll :: poll_env where
  "paid_poll =
     \<lparr> fetch_fault = None, fetch_no_rows = OtherThrown, random1 = 0, random2 = 0,
       status_fault = None, cascade_fault = None \<rparr>"

definition sample_order :: new_order where
  "sample_order =
     \<lparr> n_customerName = ''Eva'',
       n_customerEmail = ''eva@example.com'',
       n_customerPhone = ''+420987654321'',
       n_pickupDate = ''2025-03-02'',
       n_pickupTime = ''08:30'',
       n_startAddress = ''Prague'',
       n_endAddress = ''Brno'',
       n_startPoint = (50, 14),
       n_endPoint = (49, 16),
       n_distance = 200000,
       n_price = 4000,
       n_additionalNotes = None,
       n_paymentId = None,
       n_paymentStatus = None,
       n_paymentUrl = None \<rparr>"

text \<open>An \<open>addOrder\<close> whose insert succeeds and whose payment creation throws.\<close>

definition payment_fails :: add_env where
  "payment_fails =
     \<lparr> insert_fault = None, generated_id = ''o2'', insert_time = ''2025-03-02T07:00:00Z'',
       uuid_result = Inl OtherThrown, location_origin = ''http://localhost'',
       payment_update_fault = None, refresh_fault = None \<rparr>"

text \<open>An \<open>addOrder\<close> whose insert is refused.\<close>

definition insert_fails :: add_env where
  "insert_fails = payment_fails\<lparr>insert_fault := Some (ErrorObj ''row violates policy'')\<rparr>"

text \<open>
  Three doubles: the largest below 1, the one nearest to a third, and the one just below
  225.
\<close>

definition max_random :: real where
  "max_random = 1 - 1 / 2 ^ 53"

definition third_double :: real where
  "third_double = 6004799503160661 / 2 ^ 54"

definition below_225 :: real where
  "below_225 = 225 - 1 / 2 ^ 45"

text \<open>The planner before a route was found.\<close>

definition empty_planner :: planner where
  "empty_planner =
     \<lparr> routeDistance = None, routePrice = None, showOrderForm = False,
       currentStep = Details \<rparr>"

text \<open>Callback requests with the signature header absent, empty and filled.\<close>

definition unsigned_request :: "unit request" where
  "unsigned_request = \<lparr> headers = (\<lambda>h. None), body = () \<rparr>"

definition empty_signature_request :: "unit request" where
  "empty_signature_request =
     \<lparr> headers = (\<lambda>h. if h = ''x-gopay-signature'' then Some [] else None), body = () \<rparr>"

definition signed_request :: "unit request" where
  "signed_request =
     \<lparr> headers = (\<lambda>h. if h = ''x-gopay-signature'' then Some ''abc'' else None), body = () \<rparr>"

text \<open>A visitor without a session, and a signed-in user whose profile role is \<open>user\<close>.\<close>

definition visitor :: auth_store where
  "visitor = \<lparr> user = None \<rparr>"

definition plain_user :: auth_store where
  "plain_user = \<lparr> user = Some \<lparr> uid = ''u1'', metadata_role = Some ''user'' \<rparr> \<rparr>"

definition admin_location :: location where
  "admin_location =
     \<lparr> matched = \<lparr> route_path = ''/admin'', route_name = ''admin'', requiresAuth = Some True \<rparr>,
       fullPath = ''/admin'' \<rparr>"

section \<open>Properties of the double arithmetic\<close>

subsection \<open>Nearest integer\<close>

lemma rne_cases: "rne t = \<lfloor>t\<rfloor> \<or> rne t = \<lfloor>t\<rfloor> + 1"
  by (simp add: rne_def Let_def)

lemma rne_error: "\<bar>of_int (rne t) - t\<bar> \<le> 1 / 2"
proof -
  have "of_int \<lfloor>t\<rfloor> \<le> t" "t < of_int \<lfloor>t\<rfloor> + 1" by linarith+
  then show ?thesis
    by (auto simp: rne_def Let_def abs_le_iff)
qed

lemma rne_nonneg: "0 \<le> t \<Longrightarrow> 0 \<le> rne t"
  using rne_cases [of t] by (auto simp: )

lemma rne_le: "t \<le> of_int N \<Longrightarrow> rne t \<le> N"
proof -
  assume a: "t \<le> of_int N"
  show ?thesis
  proof (cases "t = of_int N")
    case True
    then show ?thesis by (simp add: rne_def)
  next
    case False
    with a have "t < of_int N" by simp
    then have "\<lfloor>t\<rfloor> < N" by (simp add: floor_less_iff)
    with rne_cases [of t] show ?thesis by auto
  qed
qed

lemma rne_of_int: "rne (of_int k) = k"
  by (simp add: rne_def)

lemma rne_below_quarter:
  assumes "t \<le> of_int N - 3 / 4"
  shows "rne t \<le> N - 1"
proof (cases "\<lfloor>t\<rfloor> \<le> N - 2")
  case True
  with rne_cases [of t] show ?thesis by auto
next
  case False
  have "t < of_int N" using assms by linarith
  then have "\<lfloor>t\<rfloor> < N" by (simp add: floor_less_iff)
  with False have f: "\<lfloor>t\<rfloor> = N - 1" by linarith
  have "t - of_int \<lfloor>t\<rfloor> < 1 / 2" using assms f by simp
  then show ?thesis using f by (simp add: rne_def Let_def)
qed

subsection \<open>Exponent\<close>

lemma two_powi_less: "(2::real) powi a < 2 powi b \<Longrightarrow> a < b"
  by (metis linorder_not_less one_le_numeral power_int_increasing)

lemma two_powi_le: "(2::real) powi a \<le> 2 powi b \<Longrightarrow> a \<le> b"
  by (metis linorder_not_less one_less_numeral_iff power_int_strict_increasing semiring_norm(76))

lemma expo_from_spec:
  "k - int n \<le> expo_from n k x \<and> expo_from n k x \<le> k
   \<and> (2 powi (expo_from n k x) \<le> x \<or> expo_from n k x = k - int n)
   \<and> (x < 2 powi (k + 1) \<longrightarrow> x < 2 powi (expo_from n k x + 1))"
proof (induction n arbitrary: k)
  case 0
  then show ?case by simp
next
  case (Suc n)
  show ?case
  proof (cases "2 powi k \<le> x")
    case True
    then show ?thesis by simp
  next
    case False
    then have lt: "x < 2 powi (k - 1 + 1)" by simp
    from Suc [of "k - 1"] lt False show ?thesis by auto
  qed
qed

lemma expo_range: "- 1022 \<le> expo x \<and> expo x \<le> 1023"
  using expo_from_spec [of 1023 2045 x] by (simp add: expo_def)

lemma expo_lower: "2 powi (expo x) \<le> x \<or> expo x = - 1022"
  using expo_from_spec [of 1023 2045 x] by (simp add: expo_def)

lemma expo_upper: "x < 2 powi 1024 \<Longrightarrow> x < 2 powi (expo x + 1)"
  using expo_from_spec [of 1023 2045 x] by (simp add: expo_def)

lemma expo_eqI:
  assumes "2 powi k \<le> x" and "x < 2 powi (k + 1)" and "- 1022 \<le> k" and "k \<le> 1023"
  shows "expo x = k"
proof -
  have "(2::real) powi (k + 1) \<le> 2 powi 1024"
    using assms(4) by (intro power_int_increasing) simp_all
  with assms(2) have "x < 2 powi 1024" by simp
  then have "x < 2 powi (expo x + 1)" by (rule expo_upper)
  with assms(1) have "(2::real) powi k < 2 powi (expo x + 1)" by simp
  then have le: "k \<le> expo x" using two_powi_less by fastforce
  show ?thesis
  proof (cases "2 powi (expo x) \<le> x")
    case True
    with assms(2) have "(2::real) powi (expo x) < 2 powi (k + 1)" by simp
    then have "expo x \<le> k" using two_powi_less by fastforce
    with le show ?thesis by simp
  next
    case False
    with expo_lower [of x] have "expo x = - 1022" by simp
    with le assms(3) show ?thesis by simp
  qed
qed

lemma expo_subnormal: "x < 2 powi (- 1022) \<Longrightarrow> expo x = - 1022"
proof -
  assume a: "x < 2 powi (- 1022)"
  show ?thesis
  proof (rule ccontr)
    assume n: "expo x \<noteq> - 1022"
    with expo_lower [of x] have "2 powi (expo x) \<le> x" by simp
    with a have "(2::real) powi (expo x) < 2 powi (- 1022)" by simp
    then have "expo x < - 1022" by (rule two_powi_less)
    with expo_range [of x] show False by simp
  qed
qed

lemma expo_le:
  assumes "x \<le> 2 powi k" and "- 1022 \<le> k"
  shows "expo x \<le> k"
proof (cases "2 powi (expo x) \<le> x")
  case True
  with assms(1) have "(2::real) powi (expo x) \<le> 2 powi k" by simp
  then show ?thesis by (rule two_powi_le)
next
  case False
  with expo_lower [of x] assms(2) show ?thesis by simp
qed

subsection \<open>Nearest double\<close>

lemma quantum_pos: "0 < quantum x"
  by (simp add: quantum_def)

lemma fl_nonneg: "0 \<le> x \<Longrightarrow> 0 \<le> fl x"
  using quantum_pos [of x] by (simp add: fl_def rne_nonneg)

lemma fl_pos_eq: "0 \<le> x \<Longrightarrow> fl x = of_int (rne (x / quantum x)) * quantum x"
  by (simp add: fl_def)

lemma fl_le_pow2:
  assumes "0 \<le> x" and "x \<le> 2 powi k" and "- 1022 \<le> k"
  shows "fl x \<le> 2 powi k"
proof -
  let ?q = "expo x - 52"
  have qk: "?q \<le> k" using expo_le [OF assms(2,3)] by simp
  have pow: "(2::real) powi k = of_int (2 ^ nat (k - ?q)) * 2 powi ?q"
  proof -
    have "(2::real) powi k = 2 powi (k - ?q) * 2 powi ?q"
      by (simp flip: power_int_add)
    also have "(2::real) powi (k - ?q) = 2 ^ nat (k - ?q)"
      using qk by (simp add: power_int_def)
    finally show ?thesis by simp
  qed
  have "x / quantum x \<le> of_int (2 ^ nat (k - ?q))"
    using assms(2) pow by (simp add: quantum_def pos_divide_le_eq)
  then have "rne (x / quantum x) \<le> 2 ^ nat (k - ?q)" by (rule rne_le)
  then have "(of_int (rne (x / quantum x)) :: real) \<le> of_int (2 ^ nat (k - ?q))"
    by (simp only: of_int_le_iff)
  then have "of_int (rne (x / quantum x)) * quantum x \<le> of_int (2 ^ nat (k - ?q)) * quantum x"
    using quantum_pos [of x] by (simp only: mult_le_cancel_right_pos)
  with pow show ?thesis by (simp add: fl_pos_eq [OF assms(1)] quantum_def)
qed

lemma fl_error_quantum: "0 \<le> x \<Longrightarrow> \<bar>fl x - x\<bar> \<le> quantum x / 2"
proof -
  assume a: "0 \<le> x"
  have "\<bar>of_int (rne (x / quantum x)) - x / quantum x\<bar> * quantum x \<le> 1 / 2 * quantum x"
    using rne_error [of "x / quantum x"] quantum_pos [of x]
    by (simp only: mult_le_cancel_right_pos)
  moreover have "\<bar>of_int (rne (x / quantum x)) - x / quantum x\<bar> * quantum x
                 = \<bar>of_int (rne (x / quantum x)) * quantum x - x\<bar>"
  proof -
    have "\<bar>of_int (rne (x / quantum x)) - x / quantum x\<bar> * quantum x
          = \<bar>(of_int (rne (x / quantum x)) - x / quantum x) * quantum x\<bar>"
      using quantum_pos [of x] by (simp add: abs_mult)
    also have "(of_int (rne (x / quantum x)) - x / quantum x) * quantum x
               = of_int (rne (x / quantum x)) * quantum x - x"
      using quantum_pos [of x] by (simp add: left_diff_distrib)
    finally show ?thesis .
  qed
  ultimately show ?thesis by (simp add: fl_pos_eq [OF a])
qed

lemma fl_error:
  assumes "0 \<le> x"
  shows "\<bar>fl x - x\<bar> \<le> x * 2 powi (- 53) + 2 powi (- 1075)"
proof -
  have q: "quantum x / 2 = 2 powi (expo x) * 2 powi (- 53)"
    by (simp add: quantum_def power_int_diff power_int_minus)
  have "quantum x / 2 \<le> x * 2 powi (- 53) + 2 powi (- 1075)"
  proof (cases "2 powi (expo x) \<le> x")
    case True
    then have "2 powi (expo x) * 2 powi (- 53) \<le> x * 2 powi (- 53)" by simp
    moreover have "(0::real) \<le> 2 powi (- 1075)" by simp
    ultimately show ?thesis using q by linarith
  next
    case False
    with expo_lower [of x] have "expo x = - 1022" by simp
    then have "quantum x / 2 = 2 powi (- 1075)"
      by (simp add: quantum_def)
    moreover have "0 \<le> x * 2 powi (- 53)" using assms by simp
    ultimately show ?thesis by linarith
  qed
  with fl_error_quantum [OF assms] show ?thesis by linarith
qed

lemma fl_eval:
  assumes "2 powi k \<le> x" and "x < 2 powi (k + 1)" and "- 1022 \<le> k" and "k \<le> 1023"
  shows "fl x = of_int (rne (x / 2 powi (k - 52))) * 2 powi (k - 52)"
proof -
  have "(0::real) < 2 powi k" by simp
  with assms(1) have "0 \<le> x" by linarith
  then show ?thesis
    by (simp add: fl_pos_eq quantum_def expo_eqI [OF assms])
qed

lemma fl_07: "fl 0.7 = 6305039478318694 / 2 ^ 53"
  by (subst fl_eval [of "- 1"]) (simp_all add: rne_def)

lemma js_mul_max_random: "js_mul max_random 6 = 6 - 1 / 2 ^ 50"
  unfolding js_mul_def max_random_def
  by (subst fl_eval [of 2]) (simp_all add: rne_def)

lemma is_double_max_random: "is_double max_random"
  unfolding is_double_def max_random_def
  by (subst fl_eval [of "- 1"]) (simp_all add: rne_def)

lemma js_mul_third_double: "js_mul third_double 6 = 2"
  unfolding js_mul_def third_double_def
  by (subst fl_eval [of 0]) (simp_all add: rne_def)

lemma js_div_below_225: "js_div below_225 1000 = 8106479329266892 / 2 ^ 55"
  unfolding js_div_def below_225_def
  by (subst fl_eval [of "- 3"]) (simp_all add: rne_def)

lemma js_mul_below_225: "js_mul (8106479329266892 / 2 ^ 55) 20 = 9 / 2"
  unfolding js_mul_def
  by (subst fl_eval [of 2]) (simp_all add: rne_def)

lemma is_double_below_225: "is_double below_225"
  unfolding is_double_def below_225_def
  by (subst fl_eval [of 7]) (simp_all add: rne_def)

lemma js_div_200000: "js_div 200000 1000 = 200"
  unfolding js_div_def
  by (subst fl_eval [of 7]) (simp_all add: rne_def)

lemma js_mul_200: "js_mul 200 20 = 4000"
  unfolding js_mul_def
  by (subst fl_eval [of 11]) (simp_all add: rne_def)

lemma double_below_one:
  assumes "is_double r" and "r < 1"
  shows "r \<le> 1 - 1 / 2 ^ 53"
proof (cases "r < 1 / 2")
  case True
  then show ?thesis by simp
next
  case False
  then have lo: "2 powi (- 1) \<le> r" by simp
  have hi: "r < 2 powi (- 1 + 1)" using assms(2) by simp
  have "fl r = of_int (rne (r / 2 powi (- 1 - 52))) * 2 powi (- 1 - 52)"
    using lo hi by (rule fl_eval) simp_all
  with assms(1) have r: "r = of_int (rne (r * 2 ^ 53)) / 2 ^ 53"
    by (simp add: is_double_def power_int_minus divide_simps)
  define n where "n = rne (r * 2 ^ 53)"
  from r have rn: "r = of_int n / 2 ^ 53" by (simp add: n_def)
  with assms(2) have "(of_int n :: real) < 2 ^ 53" by (simp add: divide_simps)
  then have "(of_int n :: real) < of_int (2 ^ 53)" by simp
  then have "n < 2 ^ 53" by (simp only: of_int_less_iff)
  then have "n \<le> 2 ^ 53 - 1" by simp
  then have "(of_int n :: real) \<le> of_int (2 ^ 53 - 1)" by (simp only: of_int_le_iff)
  then have "(of_int n :: real) \<le> 2 ^ 53 - 1" by simp
  then have "of_int n / 2 ^ 53 \<le> ((2::real) ^ 53 - 1) / 2 ^ 53"
    by (simp only: divide_right_mono zero_le_numeral zero_le_power)
  with rn show ?thesis by (simp add: diff_divide_distrib)
qed

lemma fl_times_6_bounds:
  assumes "0 \<le> r" and "r \<le> 1 - 1 / 2 ^ 53"
  shows "0 \<le> fl (r * 6) \<and> fl (r * 6) < 6"
proof
  show "0 \<le> fl (r * 6)" using assms(1) by (intro fl_nonneg) simp
  show "fl (r * 6) < 6"
  proof (cases "r * 6 < 4")
    case True
    have "fl (r * 6) \<le> 2 powi 2"
      using assms(1) True by (intro fl_le_pow2) simp_all
    then show ?thesis by simp
  next
    case False
    then have lo: "2 powi 2 \<le> r * 6" by simp
    have hi: "r * 6 < 2 powi (2 + 1)" using assms(2) by simp
    have e: "fl (r * 6) = of_int (rne (r * 6 / 2 powi (2 - 52))) * 2 powi (2 - 52)"
      using lo hi by (rule fl_eval) simp_all
    have "r * 6 * 2 ^ 50 \<le> (1 - 1 / 2 ^ 53) * 6 * 2 ^ 50"
      using assms(2) by simp
    also have "\<dots> = of_int (6 * 2 ^ 50) - 3 / 4" by simp
    finally have "rne (r * 6 * 2 ^ 50) \<le> 6 * 2 ^ 50 - 1"
      by (rule rne_below_quarter)
    then have "(of_int (rne (r * 6 * 2 ^ 50)) :: real) \<le> of_int (6 * 2 ^ 50 - 1)"
      by (simp only: of_int_le_iff)
    then have "of_int (rne (r * 6 * 2 ^ 50)) / 2 ^ 50 \<le> (of_int (6 * 2 ^ 50 - 1) :: real) / 2 ^ 50"
      by (simp only: divide_right_mono zero_le_numeral zero_le_power)
    also have "(of_int (6 * 2 ^ 50 - 1) :: real) / 2 ^ 50 < 6" by simp
    finally show ?thesis by (simp add: e power_int_minus divide_simps)
  qed
qed

lemma round_error: "\<bar>of_int (round y) - y\<bar> \<le> 1 / 2"
  using of_int_round_abs_le [of y] by simp

text \<open>The product of the price in doubles against the exact one.\<close>

lemma product_error:
  assumes "0 \<le> d"
  shows "\<bar>fl (fl (d / 1000) * 20) - d / 1000 * 20\<bar>
         \<le> d / 1000 * 20 * 2 powi (- 51) + 2 powi (- 1069)"
proof -
  define u :: real where "u = 2 powi (- 53)"
  define w :: real where "w = 2 powi (- 1075)"
  define a where "a = fl (d / 1000)"
  define b where "b = fl (a * 20)"
  define x where "x = d / 1000"
  have x0: "0 \<le> x" using assms by (simp add: x_def)
  have a0: "0 \<le> a" unfolding a_def using assms by (intro fl_nonneg) simp
  have u0: "0 \<le> u" "u \<le> 1" by (simp_all add: u_def power_int_minus inverse_eq_divide)
  have w0: "0 \<le> w" by (simp add: w_def)
  have e1: "\<bar>a - x\<bar> \<le> x * u + w"
    unfolding a_def x_def u_def w_def using assms by (intro fl_error) simp
  have e2: "\<bar>b - a * 20\<bar> \<le> a * 20 * u + w"
    unfolding b_def u_def w_def using a0 by (intro fl_error) simp
  have a_le: "a \<le> x + x * u + w" using e1 by linarith
  have "a * 20 * u \<le> (x + x * u + w) * 20 * u"
    using a_le u0 by (intro mult_right_mono) simp_all
  also have "\<dots> = x * 20 * u + x * 20 * (u * u) + w * 20 * u" by (simp add: algebra_simps)
  finally have au: "a * 20 * u \<le> x * 20 * u + x * 20 * (u * u) + w * 20 * u" .
  have uu: "x * 20 * (u * u) \<le> x * 20 * u"
  proof -
    have "u * u \<le> u" using u0 by (simp add: mult_left_le)
    then show ?thesis using x0 by (intro mult_left_mono) simp_all
  qed
  have wu: "w * 20 * u \<le> w * 20"
    using u0 w0 by (simp add: mult_left_le)
  have "b - x * 20 = (b - a * 20) + 20 * (a - x)" by simp
  then have "\<bar>b - x * 20\<bar> \<le> \<bar>b - a * 20\<bar> + \<bar>20 * (a - x)\<bar>"
    by (simp only: abs_triangle_ineq)
  also have "\<bar>20 * (a - x)\<bar> = 20 * \<bar>a - x\<bar>" by (simp only: abs_mult abs_numeral)
  finally have tri: "\<bar>b - x * 20\<bar> \<le> \<bar>b - a * 20\<bar> + 20 * \<bar>a - x\<bar>" .
  have s1: "20 * \<bar>a - x\<bar> \<le> 20 * (x * u + w)"
    using e1 by (intro mult_left_mono) simp_all
  have t: "\<bar>b - x * 20\<bar> \<le> (a * 20 * u + w) + 20 * (x * u + w)"
    by (rule order_trans [OF tri add_mono [OF e2 s1]])
  define p1 where "p1 = x * 20 * u"
  define p2 where "p2 = x * 20 * (u * u)"
  define p3 where "p3 = w * 20 * u"
  define p4 where "p4 = a * 20 * u"
  have t': "\<bar>b - x * 20\<bar> \<le> (p4 + w) + (p1 + 20 * w)"
    using t by (simp add: p1_def p4_def algebra_simps)
  have f1: "p4 \<le> p1 + p2 + p3" using au by (simp add: p1_def p2_def p3_def p4_def)
  have f2: "p2 \<le> p1" using uu by (simp add: p1_def p2_def)
  have f3: "p3 \<le> 20 * w" using wu by (simp add: p3_def)
  have f4: "0 \<le> p1" using x0 u0 by (simp add: p1_def)
  have "\<bar>b - x * 20\<bar> \<le> 4 * p1 + 41 * w"
    using t' f1 f2 f3 f4 w0 by linarith
  moreover have "4 * p1 = x * 20 * (4 * u)" by (simp add: p1_def)
  ultimately have "\<bar>b - x * 20\<bar> \<le> x * 20 * (4 * u) + 41 * w" by simp
  then have g: "\<bar>b - x * 20\<bar> \<le> x * 20 * (4 * u) + 41 * w" .
  have u4: "4 * u = 2 powi (- 51)" by (simp add: u_def)
  have w64: "(2::real) powi (- 1069) = 64 * w"
    by (simp add: w_def power_int_minus)
  have "41 * w \<le> 2 powi (- 1069)" using w0 unfolding w64 by simp
  with g have "\<bar>b - x * 20\<bar> \<le> x * 20 * (4 * u) + 2 powi (- 1069)"
    by (rule order_trans [OF _ add_left_mono])
  then show ?thesis by (simp only: u4 b_def a_def x_def)
qed

lemma round_stable:
  fixes x y e :: real
  assumes "\<bar>y - x\<bar> \<le> e" and "e < \<bar>x - of_int \<lfloor>x\<rfloor> - 1 / 2\<bar>"
  shows "round y = round x"
proof -
  have y: "x - e \<le> y" "y \<le> x + e" using assms(1) by linarith+
  have f: "of_int \<lfloor>x\<rfloor> \<le> x" "x < of_int \<lfloor>x\<rfloor> + 1" by linarith+
  show ?thesis
  proof (cases "x - of_int \<lfloor>x\<rfloor> - 1 / 2 < 0")
    case True
    with assms(2) have e: "e < 1 / 2 - (x - of_int \<lfloor>x\<rfloor>)" by linarith
    have "\<lfloor>y + 1 / 2\<rfloor> = \<lfloor>x\<rfloor>"
      using y f e by (intro floor_unique) linarith+
    moreover have "\<lfloor>x + 1 / 2\<rfloor> = \<lfloor>x\<rfloor>"
      using f True by (intro floor_unique) linarith+
    ultimately show ?thesis by (simp add: round_def)
  next
    case False
    with assms(2) have e: "e < x - of_int \<lfloor>x\<rfloor> - 1 / 2" by linarith
    have "\<lfloor>y + 1 / 2\<rfloor> = \<lfloor>x\<rfloor> + 1"
      using y f e by (intro floor_unique) (simp_all, linarith+)
    moreover have "\<lfloor>x + 1 / 2\<rfloor> = \<lfloor>x\<rfloor> + 1"
      using f False by (intro floor_unique) (simp_all, linarith+)
    ultimately show ?thesis by (simp add: round_def)
  qed
qed

lemma quotient_finite:
  assumes "0 \<le> d" and "d < 2 powi 1024"
  shows "fl (d / 1000) \<le> 2 powi 1015"
proof -
  have "d / 1000 \<le> 2 powi 1024 / 2 ^ 9" using assms by (simp add: divide_simps)
  also have "\<dots> = 2 powi 1015" by simp
  finally show ?thesis
    using assms(1) by (intro fl_le_pow2) simp_all
qed

lemma product_finite:
  assumes "0 \<le> d" and "d < 2 powi 1024"
  shows "fl (fl (d / 1000) * 20) \<le> 2 powi 1020"
proof -
  have "fl (d / 1000) \<le> 2 powi 1015" using assms by (rule quotient_finite)
  then have "fl (d / 1000) * 20 \<le> 2 powi 1015 * 32" by simp
  also have "\<dots> = 2 powi 1020" by simp
  finally show ?thesis
    using assms(1) by (intro fl_le_pow2) (simp_all add: fl_nonneg)
qed

section \<open>Persistence errors leave the cache alone\<close>

lemma map_status_update_first_paymentStatus:
  "map status (update_first P (\<lambda>x. x\<lparr>paymentStatus := v\<rparr>) xs) = map status xs"
  by (induction xs) simp_all

lemma updateOrderStatus_fault:
  "updateOrderStatus (Some e) i st s =
     s\<lparr>isLoading := False, error := Some (message_or e ''Failed to update order status'')\<rparr>"
  by (simp add: updateOrderStatus_def db_update_def)

lemma updatePaymentStatus_fault:
  "updatePaymentStatus (Some e) f2 i ps s =
     s\<lparr>isLoading := False, error := Some (message_or e ''Failed to update payment status'')\<rparr>"
  by (simp add: updatePaymentStatus_def db_update_def)

lemma deleteOrder_fault:
  "deleteOrder (Some e) i s =
     s\<lparr>isLoading := False, error := Some (message_or e ''Failed to delete order'')\<rparr>"
  by (simp add: deleteOrder_def db_delete_def)

lemma update_first_no_match: "find P xs = None \<Longrightarrow> update_first P f xs = xs"
  by (induction xs) (simp_all split: if_splits)

lemma updatePaymentStatus_cascade_fault_orders:
  "orders (updatePaymentStatus None (Some e) i ps s)
     = update_first (\<lambda>x. order_id x = i) (\<lambda>x. x\<lparr>paymentStatus := Some ps\<rparr>) (orders s)"
  by (cases "find (\<lambda>x. order_id x = i) (orders s)")
     (simp_all add: updatePaymentStatus_def db_update_def updateOrderStatus_fault Let_def
        update_first_no_match)

lemma updatePaymentStatus_cascade_fault_error:
  "error (updatePaymentStatus None (Some e) i ps s)
     = (if getOrderById i s \<noteq> None \<and> ps = ''PAID''
        then Some (message_or e ''Failed to update order status'') else None)"
  by (cases "find (\<lambda>x. order_id x = i) (orders s)")
     (simp_all add: updatePaymentStatus_def db_update_def updateOrderStatus_fault Let_def
        getOrderById_def)

text \<open>
  Claim C8, as stated, fails in the cascade of \<open>updatePaymentStatus\<close>: with the order
  cached, the first call succeeding and the cascaded status update reporting an error,
  the store's \<open>error\<close> is set and the cache is not what it was, since the payment status
  was written to the cached order before the second call.
\<close>

theorem cascade_error_changes_cache_counterexample:
  "orders (updatePaymentStatus None (Some OtherThrown) ''o1'' ''PAID'' loaded_store)
     \<noteq> orders loaded_store
   \<and> error (updatePaymentStatus None (Some OtherThrown) ''o1'' ''PAID'' loaded_store)
       = Some ''Failed to update order status''"
  by (simp add: updatePaymentStatus_cascade_fault_orders updatePaymentStatus_cascade_fault_error
        getOrderById_def loaded_store_def fresh_store_def sample_row_def mapDbRowToOrder_def)

text \<open>
  Claim C8, amended. When the own persistence call of \<open>updateOrderStatus\<close>,
  \<open>updatePaymentStatus\<close> or \<open>deleteOrder\<close> reports an error \<open>e\<close>, the cached list
  \<open>orders\<close> (and the table) is exactly what it was before the call and the store's
  \<open>error\<close> holds a message. When the own call of \<open>updatePaymentStatus\<close> succeeds and the
  cascaded status update reports an error, the cache differs from the one before only by
  the payment status written to the order after the first, successful call; no cached
  order status has changed, and \<open>error\<close> holds the message of the status update exactly
  when the cascade ran (order cached, status PAID). So every change of the cache follows
  a persistence call that succeeded.
\<close>

theorem mutation_error_keeps_cache:
  "orders (updateOrderStatus (Some e) i st s) = orders s
   \<and> table (updateOrderStatus (Some e) i st s) = table s
   \<and> error (updateOrderStatus (Some e) i st s)
       = Some (message_or e ''Failed to update order status'')
   \<and> orders (updatePaymentStatus (Some e) f2 i ps s) = orders s
   \<and> table (updatePaymentStatus (Some e) f2 i ps s) = table s
   \<and> error (updatePaymentStatus (Some e) f2 i ps s)
       = Some (message_or e ''Failed to update payment status'')
   \<and> orders (deleteOrder (Some e) i s) = orders s
   \<and> table (deleteOrder (Some e) i s) = table s
   \<and> error (deleteOrder (Some e) i s) = Some (message_or e ''Failed to delete order'')
   \<and> orders (updatePaymentStatus None (Some e) i ps s)
       = update_first (\<lambda>x. order_id x = i) (\<lambda>x. x\<lparr>paymentStatus := Some ps\<rparr>) (orders s)
   \<and> map status (orders (updatePaymentStatus f (Some e) i ps s)) = map status (orders s)
   \<and> error (updatePaymentStatus None (Some e) i ps s)
       = (if getOrderById i s \<noteq> None \<and> ps = ''PAID''
          then Some (message_or e ''Failed to update order status'') else None)"
proof -
  have "map status (orders (updatePaymentStatus f (Some e) i ps s)) = map status (orders s)"
    by (cases f)
       (simp_all add: updatePaymentStatus_fault updatePaymentStatus_cascade_fault_orders
          map_status_update_first_paymentStatus)
  then show ?thesis
    by (simp add: updateOrderStatus_fault updatePaymentStatus_fault deleteOrder_fault
          updatePaymentStatus_cascade_fault_orders updatePaymentStatus_cascade_fault_error)
qed

section \<open>A deleted order stays away\<close>

lemma order_id_mapDbRowToOrder [simp]: "order_id (mapDbRowToOrder r) = row_id r"
  by (simp add: mapDbRowToOrder_def)

lemma map_order_id_update_first:
  "(\<And>x. order_id (f x) = order_id x) \<Longrightarrow> map order_id (update_first P f xs) = map order_id xs"
  by (induction xs) simp_all

lemma ids_update_first:
  assumes "\<And>x. order_id (f x) = order_id x"
  shows "order_id ` set (update_first P f xs) = order_id ` set xs"
proof -
  have "set (map order_id (update_first P f xs)) = set (map order_id xs)"
    using assms by (simp add: map_order_id_update_first)
  then show ?thesis by simp
qed

lemma db_update_ids:
  assumes "\<And>r. row_id (f r) = row_id r" and "db_update fault i f t = Inr t'"
  shows "row_id ` set t' = row_id ` set t"
proof -
  have "map row_id (map (\<lambda>r. if row_id r = i then f r else r) t) = map row_id t"
    using assms(1) by (induction t) simp_all
  moreover have "t' = map (\<lambda>r. if row_id r = i then f r else r) t"
    using assms(2) by (cases fault) (simp_all add: db_update_def)
  ultimately have "map row_id t' = map row_id t" by simp
  then have "set (map row_id t') = set (map row_id t)" by simp
  then show ?thesis by (simp only: set_map)
qed

lemma db_insert_Inr:
  assumes "db_insert fault nid now r t = Inr (d, t1)"
  shows "row_id d = nid \<and> t1 = d # t \<and> payment_id d = None \<and> payment_status d = None
         \<and> payment_url d = None \<and> row_status d = Pending"
  using assms by (cases fault) (auto simp: db_insert_def Let_def)

lemma absent_fetchOrders: "absent i s \<Longrightarrow> absent i (fetchOrders f s)"
  by (cases f) (auto simp: absent_def fetchOrders_def db_select_all_def)

lemma absent_updateOrderStatus:
  assumes "absent i s"
  shows "absent i (updateOrderStatus f j st s)"
proof (cases "db_update f j (\<lambda>r. r\<lparr>row_status := st\<rparr>) (table s)")
  case (Inl e)
  with assms show ?thesis by (simp add: absent_def updateOrderStatus_def)
next
  case (Inr t')
  then have "row_id ` set t' = row_id ` set (table s)"
    by (rule db_update_ids [rotated]) simp
  with assms Inr show ?thesis
    by (simp add: absent_def updateOrderStatus_def ids_update_first)
qed

lemma absent_updatePaymentStatus:
  assumes a: "absent i s"
  shows "absent i (updatePaymentStatus f f2 j ps s)"
proof (cases "db_update f j (\<lambda>r. r\<lparr>payment_status := Some ps\<rparr>) (table s)")
  case (Inl e)
  with a show ?thesis by (simp add: absent_def updatePaymentStatus_def)
next
  case (Inr t')
  then have t': "row_id ` set t' = row_id ` set (table s)"
    by (rule db_update_ids [rotated]) simp
  show ?thesis
  proof (cases "find (\<lambda>x. order_id x = j) (orders s)")
    case None
    with Inr a t' show ?thesis
      by (simp add: absent_def updatePaymentStatus_def)
  next
    case (Some x)
    let ?s3 = "s\<lparr>isLoading := True, error := None, table := t',
                  orders := update_first (\<lambda>x. order_id x = j)
                              (\<lambda>x. x\<lparr>paymentStatus := Some ps\<rparr>) (orders s)\<rparr>"
    have s3: "absent i ?s3"
      using a t' by (simp add: absent_def ids_update_first)
    have "absent i (updateOrderStatus f2 j Confirmed ?s3)"
      using s3 by (rule absent_updateOrderStatus)
    with s3 Inr Some show ?thesis
      by (cases "ps = ''PAID''") (simp_all add: absent_def updatePaymentStatus_def Let_def)
  qed
qed

lemma absent_deleteOrder: "absent i s \<Longrightarrow> absent i (deleteOrder f j s)"
  by (cases f) (auto simp: absent_def deleteOrder_def db_delete_def)

lemma absent_fetchOrderById: "absent i s \<Longrightarrow> absent i (fst (fetchOrderById f nr j s))"
  by (auto simp: absent_def fetchOrderById_def Let_def split: sum.splits)

lemma absent_addOrder:
  assumes "absent i s" and "generated_id env \<noteq> i"
  shows "absent i (fst (addOrder env ord s))"
proof (cases "db_insert (insert_fault env) (generated_id env) (insert_time env)
             (mapOrderToDbRow ord) (table s)")
  case (Inl e)
  with assms show ?thesis by (simp add: addOrder_def absent_def)
next
  case (Inr dt)
  obtain data t1 where dt: "dt = (data, t1)" by (cases dt)
  from Inr dt have d: "row_id data = generated_id env" and t1: "t1 = data # table s"
    using db_insert_Inr by blast+
  let ?s2 = "s\<lparr>isLoading := True, error := None, table := t1\<rparr>"
  have s2: "absent i ?s2" using assms t1 d by (auto simp: absent_def)
  show ?thesis
  proof (cases "createPayment (uuid_result env) (location_origin env)
                         \<lparr> po_id = row_id data,
                           po_customerName = n_customerName ord,
                           po_customerEmail = n_customerEmail ord,
                           po_price = n_price ord,
                           po_description = ''Transportation from '' @ n_startAddress ord
                                              @ '' to '' @ n_endAddress ord \<rparr>")
    case (Inl a)
    have "absent i (fetchOrders (refresh_fault env)
            (?s2\<lparr>mails := mails ?s2 @ [AdminNotification (row_id data),
                                        CustomerConfirmation (row_id data)]\<rparr>))"
      by (rule absent_fetchOrders) (use s2 in \<open>simp add: absent_def\<close>)
    with Inr dt Inl show ?thesis
      by (simp add: addOrder_def absent_def Let_def)
  next
    case p: (Inr p)
    let ?f = "(\<lambda>r. r\<lparr>payment_id := Some (pay_id p),
                      payment_status := Some ''CREATED'',
                      payment_url := Some (pay_url p)\<rparr>)"
    let ?s3 = "(case db_update (payment_update_fault env) (row_id data) ?f t1 of
                  Inl updateError \<Rightarrow> ?s2
                | Inr t2 \<Rightarrow> ?s2\<lparr>table := t2\<rparr>)"
    have s3: "absent i ?s3"
    proof (cases "db_update (payment_update_fault env) (row_id data) ?f t1")
      case (Inl e)
      with s2 show ?thesis by simp
    next
      case u: (Inr t2)
      then have "row_id ` set t2 = row_id ` set t1"
        by (rule db_update_ids [rotated]) simp
      with s2 u show ?thesis by (simp add: absent_def)
    qed
    have "absent i (fetchOrders (refresh_fault env)
            (?s3\<lparr>mails := mails ?s3 @ [AdminNotification (row_id (?f data)),
                                        CustomerConfirmation (row_id (?f data))]\<rparr>))"
      by (rule absent_fetchOrders) (use s3 in \<open>simp add: absent_def\<close>)
    with Inr dt p show ?thesis
      by (simp add: addOrder_def absent_def Let_def)
  qed
qed

lemma absent_apply_op:
  "absent i s \<Longrightarrow> inserted_id opn \<noteq> Some i \<Longrightarrow> absent i (apply_op opn s)"
  by (cases opn)
     (simp_all add: absent_fetchOrders absent_addOrder absent_updateOrderStatus
        absent_updatePaymentStatus absent_deleteOrder absent_fetchOrderById)

lemma absent_run:
  "absent i s \<Longrightarrow> \<forall>opn \<in> set ops. inserted_id opn \<noteq> Some i \<Longrightarrow> absent i (run ops s)"
  by (induction ops arbitrary: s) (simp_all add: absent_apply_op)

lemma absent_after_delete: "absent i (deleteOrder None i s)"
  by (auto simp: absent_def deleteOrder_def db_delete_def)

lemma find_None_absent: "absent i s \<Longrightarrow> getOrderById i s = None"
  by (auto simp: absent_def getOrderById_def find_None_iff)

lemma fetch_None_absent: "absent i s \<Longrightarrow> snd (fetchOrderById f nr i s) = None"
proof -
  assume "absent i s"
  then have "filter (\<lambda>r. row_id r = i) (table s) = []"
    by (auto simp: absent_def filter_empty_conv)
  then show ?thesis
    by (cases f) (simp_all add: fetchOrderById_def db_select_single_def)
qed

text \<open>
  Claim C5. After a \<open>deleteOrder\<close> whose persistence call succeeded, and after any
  further store operations \<open>ops\<close> (none of which inserts a row under the same generated
  id), no row of the table and no cached order has the id, \<open>getOrderById\<close> finds nothing
  and the direct \<open>fetchOrderById\<close> returns \<open>null\<close>.
\<close>

theorem deleteOrder_then_absent:
  assumes "\<forall>opn \<in> set ops. inserted_id opn \<noteq> Some i"
  shows "i \<notin> row_id ` set (table (run ops (deleteOrder None i s)))
       \<and> i \<notin> order_id ` set (orders (run ops (deleteOrder None i s)))
       \<and> getOrderById i (run ops (deleteOrder None i s)) = None
       \<and> snd (fetchOrderById f nr i (run ops (deleteOrder None i s))) = None"
proof -
  have a: "absent i (run ops (deleteOrder None i s))"
    using absent_after_delete assms by (rule absent_run)
  then show ?thesis
    using find_None_absent [OF a] fetch_None_absent [OF a] by (simp add: absent_def)
qed

theorem deleteOrder_then_absent_witness:
  "inserted_id (FetchOrders None) \<noteq> Some ''o1''
   \<and> inserted_id (AddOrder payment_fails sample_order) \<noteq> Some ''o1''
   \<and> ''o1'' \<in> order_id ` set (orders loaded_store)
   \<and> getOrderById ''o1''
        (run [FetchOrders None, AddOrder payment_fails sample_order]
           (deleteOrder None ''o1'' loaded_store)) = None
   \<and> snd (fetchOrderById None OtherThrown ''o1''
        (run [FetchOrders None, AddOrder payment_fails sample_order]
           (deleteOrder None ''o1'' loaded_store))) = None"
  using deleteOrder_then_absent
          [of "[FetchOrders None, AddOrder payment_fails sample_order]" "''o1''"
              loaded_store None OtherThrown]
  by (simp add: payment_fails_def loaded_store_def fresh_store_def sample_row_def)

section \<open>The payment-result poll, the direct fetch and the cache\<close>

text \<open>
  A successful \<open>updatePaymentStatus\<close> persists the payment status on the rows of the
  id, cached or not.
\<close>

lemma updateOrderStatus_payment_status:
  "map payment_status (table (updateOrderStatus f i st s)) = map payment_status (table s)"
  by (cases f) (simp_all add: updateOrderStatus_def db_update_def o_def)

lemma updatePaymentStatus_persists:
  "map payment_status (table (updatePaymentStatus None f2 i ps s))
     = map (\<lambda>r. if row_id r = i then Some ps else payment_status r) (table s)"
proof (cases "find (\<lambda>x. order_id x = i) (orders s)")
  case None
  then show ?thesis
    by (simp add: updatePaymentStatus_def db_update_def o_def if_distrib cong: if_cong)
next
  case (Some x)
  then show ?thesis
    by (cases "ps = ''PAID''")
       (simp_all add: updatePaymentStatus_def db_update_def Let_def
          updateOrderStatus_payment_status o_def if_distrib cong: if_cong)
qed

text \<open>
  The cascade of \<open>updatePaymentStatus\<close> and the cache: with the order cached and both
  calls succeeding, a PAID status confirms the persisted order; without it in the cache
  no persisted status changes, whatever the payment status is.
\<close>

lemma updatePaymentStatus_cached_paid:
  "getOrderById i s = Some x \<Longrightarrow>
     table (updatePaymentStatus None None i ''PAID'' s)
       = map (\<lambda>r. if row_id r = i
                   then r\<lparr>payment_status := Some ''PAID'', row_status := Confirmed\<rparr> else r)
           (table s)"
  by (simp add: updatePaymentStatus_def db_update_def getOrderById_def updateOrderStatus_def
        o_def Let_def)

lemma updatePaymentStatus_uncached:
  "getOrderById i s = None \<Longrightarrow>
     map row_status (table (updatePaymentStatus f f2 i ps s)) = map row_status (table s)"
  by (cases f) (simp_all add: updatePaymentStatus_def db_update_def getOrderById_def o_def)

lemma getPaymentStatus_paid: "getPaymentStatus 0 r ''mock_payment_1a2b3c4d'' = Some ''PAID''"
  by (simp add: getPaymentStatus_def startsWith_def js_index_def statuses_def fl_07)

text \<open>
  Claim C1. The claim says that \<open>updatePaymentStatus\<close> with status PAID on an order of the
  database makes the order's status confirmed, in particular from the payment-result
  poll. Evaluated on a freshly loaded page (the order \<open>o1\<close> persisted as pending, nothing
  cached) with every call succeeding and the gateway answering PAID: the poll persists
  the payment status PAID, shows it, reports no error, and the order's persisted status
  is still pending; so it is after the direct call of \<open>updatePaymentStatus\<close>.
\<close>

theorem poll_paid_leaves_order_pending:
  "map row_id (table fresh_store) = [''o1'']
   \<and> map payment_status
        (table (fst (onMounted paid_poll (Some ''o1'') (fresh_store, initial_view))))
       = [Some ''PAID'']
   \<and> map row_status
        (table (fst (onMounted paid_poll (Some ''o1'') (fresh_store, initial_view))))
       = [Pending]
   \<and> view_paymentStatus (snd (onMounted paid_poll (Some ''o1'') (fresh_store, initial_view)))
       = Some ''PAID''
   \<and> error (fst (onMounted paid_poll (Some ''o1'') (fresh_store, initial_view))) = None
   \<and> map row_status (table (updatePaymentStatus None None ''o1'' ''PAID'' fresh_store))
       = [Pending]"
  by (simp add: onMounted_def paid_poll_def fresh_store_def initial_view_def sample_row_def
        fetchOrderById_def db_select_single_def mapDbRowToOrder_def getPaymentStatus_paid
        updatePaymentStatus_def db_update_def)

text \<open>
  Claim C9, as stated, fails where the list was loaded before: the order fetched directly
  is then also found by \<open>getOrderById\<close>.
\<close>

theorem fetchOrderById_cached_counterexample:
  "snd (fetchOrderById None OtherThrown ''o1'' loaded_store) = Some (mapDbRowToOrder sample_row)
   \<and> getOrderById ''o1'' (fst (fetchOrderById None OtherThrown ''o1'' loaded_store))
       = Some (mapDbRowToOrder sample_row)"
  by (simp add: fetchOrderById_def db_select_single_def getOrderById_def loaded_store_def
        fresh_store_def sample_row_def mapDbRowToOrder_def)

text \<open>
  Claim C9, amended. \<open>fetchOrderById\<close> returns the mapped row when the query answers
  with one and \<open>null\<close> otherwise, and leaves the cached list (and the table) exactly as
  it was; so \<open>getOrderById\<close> finds afterwards what it found before, for every id: the
  fetch makes no order findable that was not already cached.
\<close>

theorem fetchOrderById_frame:
  "orders (fst (fetchOrderById f nr i s)) = orders s
   \<and> table (fst (fetchOrderById f nr i s)) = table s
   \<and> getOrderById j (fst (fetchOrderById f nr i s)) = getOrderById j s
   \<and> snd (fetchOrderById f nr i s)
       = (case db_select_single f nr i (table s) of
            Inl e \<Rightarrow> None
          | Inr row \<Rightarrow> Some (mapDbRowToOrder row))"
  by (cases "db_select_single f nr i (table s)")
     (simp_all add: fetchOrderById_def getOrderById_def)

section \<open>Creating an order when a call fails\<close>

text \<open>
  Claim C2, as stated, fails on the redirect URL: when the payment creation throws, the
  URL returned with the new id is \<open>null\<close>, not a non-empty string.
\<close>

theorem addOrder_payment_failure_counterexample:
  "snd (addOrder payment_fails sample_order fresh_store)
     = Some \<lparr> res_orderId = ''o2'', res_paymentUrl = None \<rparr>"
  by (simp add: addOrder_def payment_fails_def db_insert_def createPayment_def Let_def)

lemma createPayment_fails_iff:
  "(\<exists>e. createPayment u org po = Inl e) \<longleftrightarrow> (\<exists>e. u = Inl e)"
  by (cases u) (simp_all add: createPayment_def)

lemma fetchOrders_table: "table (fetchOrders f s) = table s"
  by (cases f) (simp_all add: fetchOrders_def db_select_all_def)

lemma fetchOrders_error:
  "error (fetchOrders f s)
     = (case f of None \<Rightarrow> None | Some e \<Rightarrow> Some (message_or e ''Failed to fetch orders''))"
  by (cases f) (simp_all add: fetchOrders_def db_select_all_def)

lemma addOrder_insert_fault:
  "insert_fault env = Some e \<Longrightarrow>
     addOrder env ord s
       = (s\<lparr>isLoading := False, error := Some (message_or e ''Failed to add order'')\<rparr>, None)"
  by (simp add: addOrder_def db_insert_def)

lemma addOrder_payment_fault:
  assumes "insert_fault env = None" and "uuid_result env = Inl pe"
  shows "\<exists>row. db_insert None (generated_id env) (insert_time env) (mapOrderToDbRow ord) (table s)
                 = Inr (row, row # table s)
           \<and> addOrder env ord s
             = ((fetchOrders (refresh_fault env)
                   (s\<lparr>isLoading := True, error := None, table := row # table s,
                       mails := mails s @ [AdminNotification (generated_id env),
                                           CustomerConfirmation (generated_id env)]\<rparr>))
                  \<lparr>isLoading := False\<rparr>,
                Some \<lparr> res_orderId = generated_id env, res_paymentUrl = None \<rparr>)"
  using assms by (simp add: addOrder_def db_insert_def createPayment_def Let_def)

text \<open>
  Claim C2, amended. When the insert succeeds and the payment creation throws, the new
  row is persisted as pending with its three payment columns NULL, \<open>addOrder\<close> returns
  the generated id together with an absent payment URL, and nothing is reported for the
  payment failure: the store's \<open>error\<close> is \<open>null\<close> unless the list refresh that follows
  reports one. When the insert reports an error, \<open>addOrder\<close> returns \<open>null\<close>, the
  store's \<open>error\<close> holds the message, and table and cache are untouched.
\<close>

theorem addOrder_failures:
  "(insert_fault env = None \<and> uuid_result env = Inl pe \<longrightarrow>
      (\<exists>row. table (fst (addOrder env ord s)) = row # table s
           \<and> row_id row = generated_id env
           \<and> row_status row = Pending
           \<and> payment_id row = None \<and> payment_status row = None \<and> payment_url row = None)
      \<and> snd (addOrder env ord s)
          = Some \<lparr> res_orderId = generated_id env, res_paymentUrl = None \<rparr>
      \<and> error (fst (addOrder env ord s))
          = (case refresh_fault env of
               None \<Rightarrow> None
             | Some e' \<Rightarrow> Some (message_or e' ''Failed to fetch orders'')))
   \<and> (insert_fault env = Some e \<longrightarrow>
        snd (addOrder env ord s) = None
        \<and> error (fst (addOrder env ord s)) = Some (message_or e ''Failed to add order'')
        \<and> table (fst (addOrder env ord s)) = table s
        \<and> orders (fst (addOrder env ord s)) = orders s)"
proof (intro conjI impI)
  assume "insert_fault env = Some e"
  then show "snd (addOrder env ord s) = None"
    and "error (fst (addOrder env ord s)) = Some (message_or e ''Failed to add order'')"
    and "table (fst (addOrder env ord s)) = table s"
    and "orders (fst (addOrder env ord s)) = orders s"
    by (simp_all add: addOrder_insert_fault)
next
  assume a: "insert_fault env = None \<and> uuid_result env = Inl pe"
  then obtain row where
    ins: "db_insert None (generated_id env) (insert_time env) (mapOrderToDbRow ord) (table s)
            = Inr (row, row # table s)"
    and add: "addOrder env ord s
             = ((fetchOrders (refresh_fault env)
                   (s\<lparr>isLoading := True, error := None, table := row # table s,
                       mails := mails s @ [AdminNotification (generated_id env),
                                           CustomerConfirmation (generated_id env)]\<rparr>))
                  \<lparr>isLoading := False\<rparr>,
                Some \<lparr> res_orderId = generated_id env, res_paymentUrl = None \<rparr>)"
    using addOrder_payment_fault [of env pe ord s] by blast
  from ins have row: "row_id row = generated_id env \<and> row_status row = Pending
      \<and> payment_id row = None \<and> payment_status row = None \<and> payment_url row = None"
    using db_insert_Inr by blast
  show "\<exists>row. table (fst (addOrder env ord s)) = row # table s
           \<and> row_id row = generated_id env
           \<and> row_status row = Pending
           \<and> payment_id row = None \<and> payment_status row = None \<and> payment_url row = None"
    using row by (intro exI [of _ row]) (simp add: add fetchOrders_table)
  show "snd (addOrder env ord s)
          = Some \<lparr> res_orderId = generated_id env, res_paymentUrl = None \<rparr>"
    by (simp add: add)
  show "error (fst (addOrder env ord s))
          = (case refresh_fault env of
               None \<Rightarrow> None
             | Some e' \<Rightarrow> Some (message_or e' ''Failed to fetch orders''))"
    by (simp add: add fetchOrders_error)
qed

theorem addOrder_failures_witness:
  "insert_fault payment_fails = None \<and> uuid_result payment_fails = Inl OtherThrown
   \<and> insert_fault insert_fails = Some (ErrorObj ''row violates policy'')
   \<and> snd (addOrder payment_fails sample_order fresh_store)
       = Some \<lparr> res_orderId = ''o2'', res_paymentUrl = None \<rparr>
   \<and> error (fst (addOrder payment_fails sample_order fresh_store)) = None
   \<and> snd (addOrder insert_fails sample_order fresh_store) = None
   \<and> error (fst (addOrder insert_fails sample_order fresh_store)) = Some ''row violates policy''"
  using addOrder_failures [of payment_fails OtherThrown sample_order fresh_store "ErrorObj ''x''"]
        addOrder_failures [of insert_fails OtherThrown sample_order fresh_store
                              "ErrorObj ''row violates policy''"]
  by (simp add: payment_fails_def insert_fails_def)

section \<open>The quoted price\<close>

lemma js_round_eq_round: "js_round x = round x"
proof (cases "x - of_int \<lfloor>x\<rfloor> < 1 / 2")
  case True
  have "of_int \<lfloor>x\<rfloor> \<le> x" by simp
  with True have "\<lfloor>x + 1 / 2\<rfloor> = \<lfloor>x\<rfloor>"
    by (intro floor_unique) linarith+
  with True show ?thesis by (simp add: js_round_def round_def)
next
  case False
  have "x < of_int \<lfloor>x\<rfloor> + 1" by linarith
  with False have "\<lfloor>x + 1 / 2\<rfloor> = \<lfloor>x\<rfloor> + 1"
    by (intro floor_unique) (simp_all, linarith+)
  with False show ?thesis by (simp add: js_round_def round_def)
qed

lemma routePrice_routesfound:
  "routePrice (routesfound (d # ds) p) = Some (js_round (js_mul (js_div d 1000) 20))"
  by (simp add: PRICE_PER_KM_def Let_def)

text \<open>
  Claim C3, as stated, fails where the two rounded operations carry the product onto a
  half: for the double just below 225 (metres) the quotient is rounded to the double just
  below 0.225 and the product to exactly 4.5, so the price quoted is 5, while
  \<open>d / 1000 * 20\<close> is below 4.5 and rounds to 4.
\<close>

theorem route_price_exact_counterexample:
  "is_double below_225
   \<and> routePrice (routesfound [below_225] empty_planner) = Some 5
   \<and> round (below_225 / 1000 * 20) = 4"
proof -
  have "round (below_225 / 1000 * 20) = 4"
    by (simp add: below_225_def round_def)
  moreover have "js_round (9 / 2) = 5"
    by (simp add: js_round_def)
  then have "routePrice (routesfound [below_225] empty_planner) = Some 5"
    by (simp only: routePrice_routesfound js_div_below_225 js_mul_below_225)
  ultimately show ?thesis
    using is_double_below_225 by simp
qed

text \<open>
  Claim C3, amended. For a computed distance of \<open>d \<ge> 0\<close> metres, a finite double, the
  quoted price is \<open>Math.round\<close> of the product as the doubles give it: the quotient
  \<open>d / 1000\<close> rounded to the nearest double, times 20, rounded again; the product stays
  finite. The price is within \<open>1 / 2 + (d / 1000 * 20) * 2 powi (- 51) + 2 powi (- 1069)\<close>
  of the exact \<open>d / 1000 * 20\<close>, and it is \<open>round (d / 1000 * 20)\<close> whenever the exact
  value is farther than \<open>(d / 1000 * 20) * 2 powi (- 51) + 2 powi (- 1069)\<close> from the
  half between its two neighbouring integers. A distance of 200000 m gives 4000.
\<close>

theorem route_price_double:
  assumes "0 \<le> d" and "d < 2 powi 1024"
  shows "routePrice (routesfound (d # ds) p) = Some (js_round (js_mul (js_div d 1000) 20))
       \<and> routeDistance (routesfound (d # ds) p) = Some d
       \<and> js_div d 1000 < 2 powi 1024
       \<and> js_mul (js_div d 1000) 20 < 2 powi 1024
       \<and> \<bar>of_int (js_round (js_mul (js_div d 1000) 20)) - d / 1000 * 20\<bar>
           \<le> 1 / 2 + d / 1000 * 20 * 2 powi (- 51) + 2 powi (- 1069)
       \<and> (d / 1000 * 20 * 2 powi (- 51) + 2 powi (- 1069)
             < \<bar>d / 1000 * 20 - of_int \<lfloor>d / 1000 * 20\<rfloor> - 1 / 2\<bar>
           \<longrightarrow> routePrice (routesfound (d # ds) p) = Some (round (d / 1000 * 20)))
       \<and> routePrice (routesfound [200000] p) = Some 4000"
proof -
  let ?b = "js_mul (js_div d 1000) 20"
  let ?x = "d / 1000 * 20"
  let ?e = "?x * 2 powi (- 51) + 2 powi (- 1069)"
  have b: "?b = fl (fl (d / 1000) * 20)" by (simp add: js_mul_def js_div_def)
  have err: "\<bar>?b - ?x\<bar> \<le> ?e"
    unfolding b using assms(1) by (rule product_error)
  have fin: "?b < 2 powi 1024"
  proof -
    have "?b \<le> 2 powi 1020" unfolding b using assms by (rule product_finite)
    also have "(2::real) powi 1020 < 2 powi 1024"
      by (intro power_int_strict_increasing) simp_all
    finally show ?thesis .
  qed
  have finq: "js_div d 1000 < 2 powi 1024"
  proof -
    have "js_div d 1000 \<le> 2 powi 1015"
      unfolding js_div_def using assms by (rule quotient_finite)
    also have "(2::real) powi 1015 < 2 powi 1024"
      by (intro power_int_strict_increasing) simp_all
    finally show ?thesis .
  qed
  have near: "\<bar>of_int (js_round ?b) - ?x\<bar> \<le> 1 / 2 + ?e"
  proof -
    have "\<bar>of_int (round ?b) - ?b\<bar> \<le> 1 / 2" by (rule round_error)
    with err show ?thesis unfolding js_round_eq_round by linarith
  qed
  have same: "?e < \<bar>?x - of_int \<lfloor>?x\<rfloor> - 1 / 2\<bar> \<longrightarrow> js_round ?b = round ?x"
    unfolding js_round_eq_round using err by (auto intro: round_stable)
  have "js_round 4000 = 4000" by (simp add: js_round_def)
  then have ex: "routePrice (routesfound [200000] p) = Some 4000"
    by (simp only: routePrice_routesfound js_div_200000 js_mul_200)
  have dist: "routeDistance (routesfound (d # ds) p) = Some d"
    by (simp add: Let_def)
  have near': "\<bar>of_int (js_round ?b) - ?x\<bar>
                 \<le> 1 / 2 + ?x * 2 powi (- 51) + 2 powi (- 1069)"
    using near by linarith
  have same': "?e < \<bar>?x - of_int \<lfloor>?x\<rfloor> - 1 / 2\<bar>
               \<longrightarrow> routePrice (routesfound (d # ds) p) = Some (round ?x)"
    using same by (simp only: routePrice_routesfound option.inject)
  show ?thesis
    by (intro conjI routePrice_routesfound dist finq fin near' same' ex)
qed

theorem route_price_double_witness:
  "(0::real) \<le> 200000 \<and> (200000::real) < 2 powi 1024
   \<and> (200000::real) / 1000 * 20 * 2 powi (- 51) + 2 powi (- 1069)
        < \<bar>200000 / 1000 * 20 - of_int \<lfloor>200000 / 1000 * 20 :: real\<rfloor> - 1 / 2\<bar>
   \<and> routePrice (routesfound [200000] empty_planner) = Some (round (200000 / 1000 * 20 :: real))
   \<and> routePrice (routesfound [200000] empty_planner) = Some 4000"
proof -
  have h: "(200000::real) / 1000 * 20 * 2 powi (- 51) + 2 powi (- 1069)
             < \<bar>200000 / 1000 * 20 - of_int \<lfloor>200000 / 1000 * 20 :: real\<rfloor> - 1 / 2\<bar>"
    by (simp add: power_int_minus)
  have b: "(200000::real) < 2 powi 1024" by simp
  from route_price_double [of 200000 "[]" empty_planner] h b
  show ?thesis by simp
qed

section \<open>The callback endpoint\<close>

text \<open>
  Claim C4, as stated, fails on a header that is present and empty: the status is 401
  for it and 200 for a header with a value, so presence alone does not decide.
\<close>

theorem callback_empty_signature_counterexample:
  "headers empty_signature_request ''x-gopay-signature'' = Some []
   \<and> status_code (gopay_callback empty_signature_request) = 401
   \<and> headers signed_request ''x-gopay-signature'' = Some ''abc''
   \<and> status_code (gopay_callback signed_request) = 200"
  by (simp add: gopay_callback_def empty_signature_request_def signed_request_def
        verifyCallbackSignature_def)

text \<open>
  Claim C4, amended. \<open>verifyCallbackSignature\<close> is true of every body and signature, and
  the status of the response is 200 when the \<open>x-gopay-signature\<close> header carries a
  non-empty value and 401 when it is absent or empty.
\<close>

theorem callback_status:
  "verifyCallbackSignature b sg
   \<and> status_code (gopay_callback req)
       = (case headers req ''x-gopay-signature'' of
            None \<Rightarrow> 401
          | Some sg' \<Rightarrow> if sg' = [] then 401 else 200)"
  by (cases "headers req ''x-gopay-signature''")
     (simp_all add: gopay_callback_def verifyCallbackSignature_def)

theorem callback_status_witness:
  "status_code (gopay_callback unsigned_request) = 401
   \<and> status_code (gopay_callback empty_signature_request) = 401
   \<and> status_code (gopay_callback signed_request) = 200"
  using callback_status [of "()" "''abc''" unsigned_request]
        callback_status [of "()" "''abc''" empty_signature_request]
        callback_status [of "()" "''abc''" signed_request]
  by (simp add: unsigned_request_def empty_signature_request_def signed_request_def)

section \<open>The navigation guard\<close>

lemma resolve_admin: "resolve ''/admin'' = Some admin_location"
  by (simp add: resolve_def routes_def admin_location_def)

lemma href_login:
  "href ''login'' [(''redirect'', ''/admin'')] = Some ''/login?redirect=/admin''"
  by (simp add: href_def routes_def)

text \<open>
  Claim C6. For a visitor without a session and a navigation whose target matches the
  \<open>/admin\<close> record, the guard does not let the navigation proceed: it redirects to the
  route named \<open>login\<close> with the requested full path as the query parameter \<open>redirect\<close>.
  The path \<open>/admin\<close> resolves to such a target, and the redirect for it is the address
  \<open>/login?redirect=/admin\<close>.
\<close>

theorem guard_redirects_unauthenticated:
  assumes "\<not> isAuthenticated a" and "matched to = matched admin_location"
  shows "beforeEach a to = Redirect ''login'' [(''redirect'', fullPath to)]
       \<and> beforeEach a to \<noteq> Proceed
       \<and> resolve ''/admin'' = Some admin_location
       \<and> beforeEach a admin_location = Redirect ''login'' [(''redirect'', ''/admin'')]
       \<and> href ''login'' [(''redirect'', ''/admin'')] = Some ''/login?redirect=/admin''"
  using assms by (simp add: beforeEach_def resolve_admin href_login admin_location_def)

theorem guard_redirects_unauthenticated_witness:
  "\<not> isAuthenticated visitor
   \<and> beforeEach visitor admin_location = Redirect ''login'' [(''redirect'', ''/admin'')]
   \<and> href ''login'' [(''redirect'', ''/admin'')] = Some ''/login?redirect=/admin''"
  using guard_redirects_unauthenticated [of visitor admin_location]
  by (simp add: isAuthenticated_def visitor_def admin_location_def)

text \<open>
  Claim C10. The guard lets every navigation of a signed-in user proceed, whatever the
  role, and its decision is the same for two stores that agree on \<open>isAuthenticated\<close>; a
  user whose role is \<open>user\<close>, for whom \<open>isAdmin\<close> is false, enters \<open>/admin\<close>.
\<close>

theorem guard_ignores_role:
  "(user a = Some u \<longrightarrow> beforeEach a to = Proceed)
   \<and> (isAuthenticated a = isAuthenticated b \<longrightarrow> beforeEach a to = beforeEach b to)
   \<and> \<not> isAdmin plain_user
   \<and> beforeEach plain_user admin_location = Proceed"
  by (simp add: beforeEach_def isAuthenticated_def isAdmin_def plain_user_def)

theorem guard_ignores_role_witness:
  "user plain_user = Some \<lparr> uid = ''u1'', metadata_role = Some ''user'' \<rparr>
   \<and> \<not> isAdmin plain_user
   \<and> isAuthenticated plain_user
        = isAuthenticated \<lparr> user = Some \<lparr> uid = ''u2'', metadata_role = Some ''admin'' \<rparr> \<rparr>
   \<and> isAdmin \<lparr> user = Some \<lparr> uid = ''u2'', metadata_role = Some ''admin'' \<rparr> \<rparr>
   \<and> beforeEach plain_user admin_location = Proceed
   \<and> beforeEach \<lparr> user = Some \<lparr> uid = ''u2'', metadata_role = Some ''admin'' \<rparr> \<rparr> admin_location
       = Proceed"
  using guard_ignores_role [of plain_user "\<lparr> uid = ''u1'', metadata_role = Some ''user'' \<rparr>"
          admin_location "\<lparr> user = Some \<lparr> uid = ''u2'', metadata_role = Some ''admin'' \<rparr> \<rparr>"]
  by (auto simp: plain_user_def isAuthenticated_def isAdmin_def)

section \<open>The mock payment status\<close>

lemma js_index_in_range:
  "0 \<le> i \<Longrightarrow> i < int (length xs) \<Longrightarrow> \<exists>x \<in> set xs. js_index xs i = Some x"
  by (simp add: js_index_def)

lemma floor_index_bounds:
  assumes "is_double r" and "0 \<le> r" and "r < 1"
  shows "0 \<le> \<lfloor>js_mul r (real (length statuses))\<rfloor>
         \<and> \<lfloor>js_mul r (real (length statuses))\<rfloor> < int (length statuses)"
proof -
  have n: "real (length statuses) = 6" by (simp add: statuses_def)
  have "r \<le> 1 - 1 / 2 ^ 53" using assms(1,3) by (rule double_below_one)
  with assms(2) have "0 \<le> fl (r * 6) \<and> fl (r * 6) < 6" by (rule fl_times_6_bounds)
  then have "0 \<le> \<lfloor>fl (r * 6)\<rfloor> \<and> \<lfloor>fl (r * 6)\<rfloor> < 6"
    by (simp add: floor_less_iff)
  then show ?thesis by (simp add: n js_mul_def statuses_def)
qed

text \<open>
  Two inputs where rounding decides: a third rounded to a double, times 6,
  is the double 2 and selects PAID; a first random number equal to the double of \<open>0.7\<close>
  is not below it and takes the second branch.
\<close>

lemma getPaymentStatus_third:
  "getPaymentStatus (3 / 4) third_double ''mock_payment_1a2b3c4d'' = Some ''PAID''"
  by (simp add: getPaymentStatus_def startsWith_def js_index_def statuses_def fl_07
        js_mul_third_double)

lemma getPaymentStatus_threshold:
  "getPaymentStatus (fl 0.7) 0 ''mock_payment_1a2b3c4d'' = Some ''CREATED''"
proof -
  have "fl 0 = 0" by (simp add: fl_def rne_def)
  then show ?thesis
    by (simp add: getPaymentStatus_def startsWith_def js_index_def statuses_def js_mul_def)
qed

text \<open>
  Claim C7. With the second random number a double in the range of \<open>Math.random\<close>, from
  0 up to but not 1, and whatever the first, \<open>getPaymentStatus\<close> of an id that starts
  with \<open>mock_payment_\<close> is one of the six statuses of the array: the index computed from
  the rounded product lies within the bounds, so the result is never \<open>undefined\<close>. Of any
  other id it is UNKNOWN.
\<close>

theorem getPaymentStatus_defined:
  assumes "is_double r2" and "0 \<le> r2" and "r2 < 1"
  shows "(startsWith pid ''mock_payment_'' \<longrightarrow>
            (\<exists>st \<in> set statuses. getPaymentStatus r1 r2 pid = Some st))
       \<and> (\<not> startsWith pid ''mock_payment_'' \<longrightarrow> getPaymentStatus r1 r2 pid = Some ''UNKNOWN'')
       \<and> 0 \<le> \<lfloor>js_mul r2 (real (length statuses))\<rfloor>
       \<and> \<lfloor>js_mul r2 (real (length statuses))\<rfloor> < int (length statuses)
       \<and> set statuses = {''CREATED'', ''PENDING'', ''PAID'', ''CANCELED'', ''TIMEOUTED'', ''FAILED''}"
proof (intro conjI impI)
  assume m: "startsWith pid ''mock_payment_''"
  show "\<exists>st \<in> set statuses. getPaymentStatus r1 r2 pid = Some st"
  proof (cases "r1 < fl 0.7")
    case True
    have "\<exists>x \<in> set statuses. js_index statuses 2 = Some x"
      by (rule js_index_in_range) (simp_all add: statuses_def)
    with True m show ?thesis by (simp add: getPaymentStatus_def)
  next
    case False
    have "\<exists>x \<in> set statuses. js_index statuses \<lfloor>js_mul r2 (real (length statuses))\<rfloor> = Some x"
      using floor_index_bounds [OF assms] by (intro js_index_in_range) simp_all
    with False m show ?thesis by (simp add: getPaymentStatus_def)
  qed
next
  assume "\<not> startsWith pid ''mock_payment_''"
  then show "getPaymentStatus r1 r2 pid = Some ''UNKNOWN''"
    by (simp add: getPaymentStatus_def)
next
  show "0 \<le> \<lfloor>js_mul r2 (real (length statuses))\<rfloor>"
    using floor_index_bounds [OF assms] by simp
next
  show "\<lfloor>js_mul r2 (real (length statuses))\<rfloor> < int (length statuses)"
    using floor_index_bounds [OF assms] by simp
next
  show "set statuses = {''CREATED'', ''PENDING'', ''PAID'', ''CANCELED'', ''TIMEOUTED'', ''FAILED''}"
    by (simp add: statuses_def)
qed

theorem getPaymentStatus_defined_witness:
  "is_double max_random \<and> 0 \<le> max_random \<and> max_random < 1
   \<and> startsWith ''mock_payment_1a2b3c4d'' ''mock_payment_''
   \<and> getPaymentStatus (3 / 4) max_random ''mock_payment_1a2b3c4d'' = Some ''FAILED''
   \<and> \<not> startsWith ''12345'' ''mock_payment_''
   \<and> getPaymentStatus (3 / 4) max_random ''12345'' = Some ''UNKNOWN''"
proof -
  have r: "0 \<le> max_random" "max_random < 1" by (simp_all add: max_random_def)
  have f: "\<lfloor>6 - 1 / 2 ^ 50 :: real\<rfloor> = 5" by (simp add: floor_eq_iff)
  from getPaymentStatus_defined [OF is_double_max_random r, of "''12345''" "3 / 4"]
       getPaymentStatus_defined [OF is_double_max_random r, of "''mock_payment_1a2b3c4d''" "3 / 4"]
  show ?thesis
    by (simp add: is_double_max_random r getPaymentStatus_def startsWith_def js_index_def
          statuses_def fl_07 js_mul_max_random f)
qed

end
